theory Spec2Isabelle
  imports Complex_Main
begin

text \<open>
  A model of the backend of \<^emph>\<open>proyecto-grupal-2\<close>: an Express application in front of a
  PostgreSQL database. The repository holds several versions of the backend script. The
  handlers below are those of the version with the full set of routes (health, db-test,
  system-info, info, data, echo, the users routes, products, stats); the retry loop at the
  start of the process and its health check are those of the version that has them
  (\<open>checkDatabaseConnection\<close>, \<open>startServer\<close>). The database is the one \<open>init.sql\<close> creates:
  what a statement does is read off that schema.

  The model keeps the router, the body parser and the database driver outside: a request is
  given by the route it was matched to, the fields \<open>nombre\<close> and \<open>email\<close> of a body are texts
  or missing (other JSON values are not modelled), and the store answers a statement at once.
\<close>

section \<open>Values exchanged over HTTP\<close>

text \<open>
  The backend answers every request with \<open>res.status(n).json(obj)\<close>. A response is its status
  code and the top-level object of its payload, in key order. A key whose JavaScript value is
  \<open>undefined\<close> is dropped by the JSON serialisation, so the model leaves it out of the object.
  \<open>JDate t\<close> stands for the ISO-8601 text of the instant \<open>t\<close> (milliseconds): it is what
  \<open>new Date().toISOString()\<close> gives and what a \<open>Date\<close> column value serialises to.
  \<open>JNum\<close> is a whole number; \<open>JFrac\<close> is a number that need not be whole (a measurement).
  Strings are lists of characters; the characters of a \<open>char\<close> are the 256 of Latin-1.
\<close>

datatype json =
    JNull
  | JBool bool
  | JNum int
  | JFrac rat
  | JStr string
  | JDate nat
  | JArr "json list"
  | JObj "(string \<times> json) list"

record response =
  status :: nat
  body :: "(string \<times> json) list"

definition reply :: "nat \<Rightarrow> (string \<times> json) list \<Rightarrow> response" where
  "reply n obj = \<lparr>status = n, body = obj\<rparr>"

text \<open>The field of a payload, and the test that a payload has a field.\<close>

definition field :: "string \<Rightarrow> response \<Rightarrow> json option" where
  "field k r = map_of (body r) k"

definition has_field :: "string \<Rightarrow> response \<Rightarrow> bool" where
  "has_field k r = (map_of (body r) k \<noteq> None)"

text \<open>Decimal text of a number, as a template literal prints it.\<close>

definition digit_char :: "nat \<Rightarrow> char" where
  "digit_char n = ''0123456789'' ! (n mod 10)"

fun dec :: "nat \<Rightarrow> string" where
  "dec n = (if n < 10 then [digit_char n] else dec (n div 10) @ [digit_char (n mod 10)])"

declare dec.simps [simp del]

definition dec_int :: "int \<Rightarrow> string" where
  "dec_int i = (if i < 0 then CHR ''-'' # dec (nat (- i)) else dec (nat i))"

definition dq :: "string \<Rightarrow> string" where
  "dq s = CHR 0x22 # s @ [CHR 0x22]"

section \<open>The record store\<close>

text \<open>
  The schema of \<open>init.sql\<close>:
  \<^verbatim>\<open>
  CREATE TABLE IF NOT EXISTS usuarios (
      id SERIAL PRIMARY KEY,
      nombre VARCHAR(100) NOT NULL,
      email VARCHAR(100) UNIQUE NOT NULL,
      creado_en TIMESTAMP DEFAULT CURRENT_TIMESTAMP );
  CREATE TABLE IF NOT EXISTS productos (
      id SERIAL PRIMARY KEY,
      nombre VARCHAR(100) NOT NULL,
      precio DECIMAL(10, 2) NOT NULL,
      stock INTEGER DEFAULT 0,
      creado_en TIMESTAMP DEFAULT CURRENT_TIMESTAMP );
  \<close>
  A row is a record with one field per column. \<open>precio\<close> is kept as the decimal text that the
  database driver hands to JavaScript for a \<open>DECIMAL\<close> column.
\<close>

type_synonym timestamp = nat

record usuario =
  usuario_id :: int
  usuario_nombre :: string
  usuario_email :: string
  usuario_creado_en :: timestamp

record producto =
  producto_id :: int
  producto_nombre :: string
  producto_precio :: string
  producto_stock :: "int option"
  producto_creado_en :: timestamp

datatype coltype = SERIAL | VARCHAR nat | TIMESTAMP

definition usuarios_columns :: "(string \<times> coltype) list" where
  "usuarios_columns =
     [(''id'', SERIAL), (''nombre'', VARCHAR 100), (''email'', VARCHAR 100),
      (''creado_en'', TIMESTAMP)]"

text \<open>
  An error thrown by \<open>pool.query\<close>: \<open>error.code\<close> is the SQLSTATE when the database raised the
  error, and a system code such as \<open>ECONNREFUSED\<close> or nothing when the connection failed;
  \<open>error.message\<close> is its text.
\<close>

record pg_error =
  code :: "string option"
  message :: string

text \<open>The value \<open>pool.query\<close> resolves to: the rows as JavaScript objects, and their number.\<close>

record result =
  rowCount :: nat
  rows :: "json list"

definition returning :: "json list \<Rightarrow> result" where
  "returning rs = \<lparr>rowCount = length rs, rows = rs\<rparr>"

text \<open>
  The statements the handlers send, one constructor per SQL text, carrying the bound
  parameters. The \<open>UPDATE\<close> of \<open>PUT /users/:id\<close> is built at run time: it carries its
  \<open>SET\<close> clause as a list of assignments.
\<close>

datatype sql_expr = Param string | CURRENT_TIMESTAMP

datatype stmt =
    SELECT_1
  | SELECT_now
  | SELECT_now_version
  | SELECT_usuarios
  | SELECT_usuarios_WHERE_id string
  | INSERT_usuarios string string
  | UPDATE_usuarios "(string \<times> sql_expr) list" string
  | DELETE_usuarios_WHERE_id string
  | SELECT_productos
  | SELECT_count_usuarios
  | SELECT_count_productos
  | SELECT_version

text \<open>
  The state of the store: the two tables, the sequence behind \<open>usuarios.id\<close> (its last value),
  the clock and version of the database server, and whether the server is reachable
  (\<open>outage = Some err\<close>: every query fails with the driver's connection error \<open>err\<close>, whose
  code is a system code such as \<open>ECONNREFUSED\<close>, or undefined).
  \<open>query_log\<close> and \<open>thrown\<close> are ghost fields: the statements sent so far, and the errors
  that \<open>pool.query\<close> has thrown so far, each with the statement that failed, oldest first.
\<close>

record db =
  usuarios :: "usuario list"
  usuarios_id_seq :: int
  productos :: "producto list"
  db_time :: timestamp
  db_version :: string
  outage :: "pg_error option"
  query_log :: "stmt list"
  thrown :: "(stmt \<times> pg_error) list"

subsection \<open>Coercion of text parameters\<close>

text \<open>
  The driver sends every parameter as text; the database (PostgreSQL 15, the image that
  \<open>docker-compose.yml\<close> names) converts it to the type of the column it is compared with or
  stored in. No text may hold the character U+0000
  (SQLSTATE 22021). An \<open>integer\<close> accepts an optional sign and decimal digits, surrounded
  by white space, within 32 bits. A \<open>VARCHAR(n)\<close> accepts at most \<open>n\<close> characters, and cuts
  excess characters that are all blanks.
\<close>

definition nul_byte :: pg_error where
  "nul_byte =
     \<lparr>code = Some ''22021'',
      message = ''invalid byte sequence for encoding '' @ dq ''UTF8'' @ '': 0x00''\<rparr>"

definition text_in :: "string \<Rightarrow> pg_error + string" where
  "text_in v = (if CHR 0x00 \<in> set v then Inl nul_byte else Inr v)"

definition is_space :: "char \<Rightarrow> bool" where
  "is_space c = (c \<in> set [CHR 0x09, CHR 0x0A, CHR 0x0B, CHR 0x0C, CHR 0x0D, CHR '' ''])"

definition is_digit :: "char \<Rightarrow> bool" where
  "is_digit c = (c \<in> set ''0123456789'')"

definition digit_val :: "char \<Rightarrow> nat" where
  "digit_val c = of_char c - 48"

definition digits_val :: "string \<Rightarrow> nat" where
  "digits_val ds = foldl (\<lambda>acc c. 10 * acc + digit_val c) 0 ds"

definition trim :: "string \<Rightarrow> string" where
  "trim s = rev (dropWhile is_space (rev (dropWhile is_space s)))"

definition signed_digits :: "string \<Rightarrow> bool \<times> string" where
  "signed_digits t =
     (case t of
        c # r \<Rightarrow> if c = CHR ''-'' then (True, r) else if c = CHR ''+'' then (False, r) else (False, t)
      | [] \<Rightarrow> (False, []))"

definition int4in :: "string \<Rightarrow> pg_error + int" where
  "int4in s =
     (let (neg, ds) = signed_digits (trim s) in
      if CHR 0x00 \<in> set s then Inl nul_byte
      else if ds = [] \<or> \<not> list_all is_digit ds then
        Inl \<lparr>code = Some ''22P02'',
             message = ''invalid input syntax for type integer: '' @ dq s\<rparr>
      else
        let v = (if neg then - int (digits_val ds) else int (digits_val ds)) in
        if - 2147483648 \<le> v \<and> v \<le> 2147483647 then Inr v
        else Inl \<lparr>code = Some ''22003'',
                  message = ''value '' @ dq s @ '' is out of range for type integer''\<rparr>)"

definition varchar :: "nat \<Rightarrow> string \<Rightarrow> pg_error + string" where
  "varchar n v =
     (if length v \<le> n then Inr v
      else if list_all (\<lambda>c. c = CHR '' '') (drop n v) then Inr (take n v)
      else Inl \<lparr>code = Some ''22001'',
                message = ''value too long for type character varying('' @ dec n @ '')''\<rparr>)"

subsection \<open>Execution of the statements\<close>

definition usuario_row :: "usuario \<Rightarrow> json" where
  "usuario_row u =
     JObj [(''id'', JNum (usuario_id u)), (''nombre'', JStr (usuario_nombre u)),
           (''email'', JStr (usuario_email u)), (''creado_en'', JDate (usuario_creado_en u))]"

definition producto_row :: "producto \<Rightarrow> json" where
  "producto_row p =
     JObj [(''id'', JNum (producto_id p)), (''nombre'', JStr (producto_nombre p)),
           (''precio'', JStr (producto_precio p)),
           (''stock'', (case producto_stock p of None \<Rightarrow> JNull | Some k \<Rightarrow> JNum k)),
           (''creado_en'', JDate (producto_creado_en p))]"

definition unique_violation :: "string \<Rightarrow> pg_error" where
  "unique_violation constraint =
     \<lparr>code = Some ''23505'',
      message = ''duplicate key value violates unique constraint '' @ dq constraint\<rparr>"

text \<open>
  \<open>INSERT INTO usuarios (nombre, email) VALUES ($1, $2) RETURNING *\<close>. The two values are
  read and cut to the width of their columns before the statement runs: a value that is
  refused there leaves the sequence alone. Then the defaults give the row the next value of
  the sequence and the current time, and the two unique indexes are tested; the sequence
  keeps the value it handed out also when an index refuses the row.
\<close>

definition insert_usuario :: "string \<Rightarrow> string \<Rightarrow> db \<Rightarrow> (pg_error + result) \<times> db" where
  "insert_usuario n e s =
     (case text_in n of
        Inl err \<Rightarrow> (Inl err, s)
      | Inr n0 \<Rightarrow>
     (case text_in e of
        Inl err \<Rightarrow> (Inl err, s)
      | Inr e0 \<Rightarrow>
     (case varchar 100 n0 of
        Inl err \<Rightarrow> (Inl err, s)
      | Inr n1 \<Rightarrow>
     (case varchar 100 e0 of
        Inl err \<Rightarrow> (Inl err, s)
      | Inr e1 \<Rightarrow>
         if 2147483647 \<le> usuarios_id_seq s then
           (Inl \<lparr>code = Some ''2200H'',
                 message = ''nextval: reached maximum value of sequence ''
                           @ dq ''usuarios_id_seq'' @ '' (2147483647)''\<rparr>, s)
         else
           let s1 = s\<lparr>usuarios_id_seq := usuarios_id_seq s + 1\<rparr> in
           if \<exists>u \<in> set (usuarios s). usuario_id u = usuarios_id_seq s1 then
             (Inl (unique_violation ''usuarios_pkey''), s1)
           else if \<exists>u \<in> set (usuarios s). usuario_email u = e1 then
             (Inl (unique_violation ''usuarios_email_key''), s1)
           else
             let u = \<lparr>usuario_id = usuarios_id_seq s1, usuario_nombre = n1,
                      usuario_email = e1, usuario_creado_en = db_time s\<rparr>
             in (Inr (returning [usuario_row u]), s1\<lparr>usuarios := usuarios s @ [u]\<rparr>)))))"

text \<open>
  \<open>UPDATE usuarios SET ... WHERE id = $k RETURNING *\<close>. The statement is analysed before
  its parameters are read: a \<open>SET\<close> column that the table does not have is an error
  (SQLSTATE 42703), whatever the parameters are. Then the parameters are read in their order
  (the values, then the id) and the values are cut to the width of their columns; then the
  row, if there is one, is changed. The model runs the assignments a handler can build (a
  text parameter into a \<open>VARCHAR\<close> column, \<open>CURRENT_TIMESTAMP\<close> into a \<open>TIMESTAMP\<close> column)
  and answers any other with SQLSTATE 0A000.
\<close>

definition undefined_column :: "string \<Rightarrow> pg_error" where
  "undefined_column c =
     \<lparr>code = Some ''42703'',
      message = ''column '' @ dq c @ '' of relation '' @ dq ''usuarios'' @ '' does not exist''\<rparr>"

definition read_value :: "string \<times> sql_expr \<Rightarrow> pg_error + string \<times> sql_expr" where
  "read_value a =
     (case snd a of
        Param v \<Rightarrow> (case text_in v of Inl err \<Rightarrow> Inl err | Inr v0 \<Rightarrow> Inr (fst a, Param v0))
      | CURRENT_TIMESTAMP \<Rightarrow> Inr a)"

definition coerce :: "string \<times> sql_expr \<Rightarrow> pg_error + string \<times> sql_expr" where
  "coerce a =
     (case (map_of usuarios_columns (fst a), snd a) of
        (Some (VARCHAR n), Param v) \<Rightarrow>
          (case varchar n v of Inl err \<Rightarrow> Inl err | Inr v1 \<Rightarrow> Inr (fst a, Param v1))
      | (Some TIMESTAMP, CURRENT_TIMESTAMP) \<Rightarrow> Inr a
      | _ \<Rightarrow> Inl \<lparr>code = Some ''0A000'', message = ''assignment outside the model''\<rparr>)"

fun all_or_first ::
  "('a \<Rightarrow> pg_error + 'b) \<Rightarrow> 'a list \<Rightarrow> pg_error + 'b list" where
  "all_or_first f [] = Inr []"
| "all_or_first f (a # as) =
     (case f a of
        Inl err \<Rightarrow> Inl err
      | Inr b \<Rightarrow> (case all_or_first f as of Inl err \<Rightarrow> Inl err | Inr bs \<Rightarrow> Inr (b # bs)))"

definition assign :: "timestamp \<Rightarrow> usuario \<Rightarrow> string \<times> sql_expr \<Rightarrow> usuario" where
  "assign now u a =
     (case snd a of
        Param v \<Rightarrow>
          if fst a = ''nombre'' then u\<lparr>usuario_nombre := v\<rparr>
          else if fst a = ''email'' then u\<lparr>usuario_email := v\<rparr>
          else u
      | CURRENT_TIMESTAMP \<Rightarrow>
          if fst a = ''creado_en'' then u\<lparr>usuario_creado_en := now\<rparr> else u)"

definition update_usuarios ::
  "(string \<times> sql_expr) list \<Rightarrow> string \<Rightarrow> db \<Rightarrow> (pg_error + result) \<times> db" where
  "update_usuarios sets i s =
     (case find (\<lambda>a. map_of usuarios_columns (fst a) = None) sets of
        Some a \<Rightarrow> (Inl (undefined_column (fst a)), s)
      | None \<Rightarrow>
     (case all_or_first read_value sets of
        Inl err \<Rightarrow> (Inl err, s)
      | Inr sets0 \<Rightarrow>
     (case int4in i of
        Inl err \<Rightarrow> (Inl err, s)
      | Inr n \<Rightarrow>
     (case all_or_first coerce sets0 of
        Inl err \<Rightarrow> (Inl err, s)
      | Inr sets1 \<Rightarrow>
     (case filter (\<lambda>u. usuario_id u = n) (usuarios s) of
        [] \<Rightarrow> (Inr (returning []), s)
      | u # _ \<Rightarrow>
         let u1 = foldl (assign (db_time s)) u sets1 in
         if \<exists>v \<in> set (usuarios s). usuario_id v \<noteq> n \<and> usuario_email v = usuario_email u1 then
           (Inl (unique_violation ''usuarios_email_key''), s)
         else
           (Inr (returning [usuario_row u1]),
            s\<lparr>usuarios := map (\<lambda>v. if usuario_id v = n then u1 else v) (usuarios s)\<rparr>))))))"

text \<open>\<open>COUNT(*)\<close> and \<open>SUM(stock)\<close> are of type \<open>bigint\<close>, which the driver hands over as
  decimal text; the sum of no value is \<open>NULL\<close>. \<open>ORDER BY creado_en DESC\<close> lists the latest
  rows first and leaves rows of the same time in the order of the table.\<close>

definition sum_stock :: "producto list \<Rightarrow> json" where
  "sum_stock ps =
     (case List.map_filter producto_stock ps of
        [] \<Rightarrow> JNull
      | k # ks \<Rightarrow> JStr (dec_int (sum_list (k # ks))))"

fun exec :: "stmt \<Rightarrow> db \<Rightarrow> (pg_error + result) \<times> db" where
  "exec SELECT_1 s = (Inr (returning [JObj [(''?column?'', JNum 1)]]), s)"
| "exec SELECT_now s = (Inr (returning [JObj [(''db_time'', JDate (db_time s))]]), s)"
| "exec SELECT_now_version s =
     (Inr (returning [JObj [(''current_time'', JDate (db_time s)),
                            (''postgres_version'', JStr (db_version s))]]), s)"
| "exec SELECT_usuarios s =
     (Inr (returning (map usuario_row
                        (sort_key (\<lambda>u. - int (usuario_creado_en u)) (usuarios s)))), s)"
| "exec (SELECT_usuarios_WHERE_id i) s =
     (case int4in i of
        Inl err \<Rightarrow> (Inl err, s)
      | Inr n \<Rightarrow>
          (Inr (returning (map usuario_row (filter (\<lambda>u. usuario_id u = n) (usuarios s)))), s))"
| "exec (INSERT_usuarios n e) s = insert_usuario n e s"
| "exec (UPDATE_usuarios sets i) s = update_usuarios sets i s"
| "exec (DELETE_usuarios_WHERE_id i) s =
     (case int4in i of
        Inl err \<Rightarrow> (Inl err, s)
      | Inr n \<Rightarrow>
          (Inr (returning (map usuario_row (filter (\<lambda>u. usuario_id u = n) (usuarios s)))),
           s\<lparr>usuarios := filter (\<lambda>u. usuario_id u \<noteq> n) (usuarios s)\<rparr>))"
| "exec SELECT_productos s =
     (Inr (returning (map producto_row
                        (sort_key (\<lambda>p. - int (producto_creado_en p)) (productos s)))), s)"
| "exec SELECT_count_usuarios s =
     (Inr (returning [JObj [(''total'', JStr (dec (length (usuarios s))))]]), s)"
| "exec SELECT_count_productos s =
     (Inr (returning [JObj [(''total'', JStr (dec (length (productos s)))),
                            (''total_stock'', sum_stock (productos s))]]), s)"
| "exec SELECT_version s = (Inr (returning [JObj [(''version'', JStr (db_version s))]]), s)"

text \<open>
  \<open>pool.query(text, values)\<close>: the statement is sent (and logged); an unreachable store
  throws the connection error, a reachable one runs the statement. An error thrown is
  recorded in \<open>thrown\<close>.
\<close>

definition pool_query :: "stmt \<Rightarrow> db \<Rightarrow> (pg_error + result) \<times> db" where
  "pool_query q s =
     (let s1 = s\<lparr>query_log := query_log s @ [q]\<rparr> in
      case (case outage s of
              Some err \<Rightarrow> (Inl err, s1)
            | None \<Rightarrow> exec q s1) of
        (Inl error, s2) \<Rightarrow> (Inl error, s2\<lparr>thrown := thrown s2 @ [(q, error)]\<rparr>)
      | (Inr result, s2) \<Rightarrow> (Inr result, s2))"

section \<open>The process and its requests\<close>

text \<open>
  What a handler reads from the process: the environment variables \<open>NODE_ENV\<close> and
  \<open>DB_HOST\<close>, the clock (\<open>Date.now()\<close>), \<open>process.uptime()\<close> (seconds and a fraction of a
  second, not negative), \<open>START_TIME\<close>, \<open>process.version\<close>, \<open>process.memoryUsage()\<close> and its
  \<open>heapUsed\<close>.
\<close>

record env =
  NODE_ENV :: "string option"
  DB_HOST :: "string option"
  date_now :: nat
  uptime :: rat
  START_TIME :: nat
  node_version :: string
  memory_usage :: json
  heap_used :: nat

text \<open>
  The body of \<open>POST /users\<close> and \<open>PUT /users/:id\<close> after \<open>const { nombre, email } = req.body\<close>:
  each field is a text or is missing. A value is truthy when it is a non-empty text. The
  body parser hands over any JSON value as it is; a body whose \<open>nombre\<close> or \<open>email\<close> is a
  number, a boolean, \<open>null\<close>, an array or an object is outside the model, and every statement
  below about a name or an email is about texts.
\<close>

record user_body =
  nombre :: "string option"
  email :: "string option"

definition str :: "string option \<Rightarrow> string" where
  "str v = (case v of None \<Rightarrow> [] | Some t \<Rightarrow> t)"

definition truthy :: "string option \<Rightarrow> bool" where
  "truthy v = (str v \<noteq> [])"

definition or_default :: "string option \<Rightarrow> string \<Rightarrow> string" where
  "or_default v d = (if truthy v then str v else d)"

text \<open>An exception that reaches the terminal error handler: \<open>err.status\<close>, \<open>err.message\<close>,
  \<open>err.stack\<close>.\<close>

record js_error =
  err_status :: "nat option"
  err_message :: string
  err_stack :: "string option"

text \<open>
  A request, by the route the router matched it to. \<open>OPTIONS\<close> is a request of that method,
  on any path: the CORS middleware, which runs first, answers it. \<open>Unmatched\<close> is a request
  of another method that no route matches; \<open>Body_rejected err\<close> is a request that was
  refused with the error \<open>err\<close> before any handler ran (by the JSON body parser on a
  malformed body, by the router on a malformed escape in the path), which goes to the
  terminal error handler. A \<open>HEAD\<close> request, whose answer is sent without its payload, is not
  modelled.
\<close>

datatype request =
    GET_health
  | GET_db_test
  | GET_system_info
  | GET_info
  | GET_data
  | POST_echo json
  | GET_users
  | GET_users_id string
  | POST_users user_body
  | PUT_users_id string user_body
  | DELETE_users_id string
  | GET_products
  | GET_stats
  | OPTIONS
  | Unmatched
  | Body_rejected js_error

section \<open>Request handlers\<close>

definition sq :: "string \<Rightarrow> string" where
  "sq s = CHR 0x27 # s @ [CHR 0x27]"

text \<open>\<open>user: result.rows[0]\<close>: the first row under the given key, no key when there is no row.\<close>

definition first_row :: "string \<Rightarrow> result \<Rightarrow> (string \<times> json) list" where
  "first_row k r = (case rows r of [] \<Rightarrow> [] | x # _ \<Rightarrow> [(k, x)])"

text \<open>The \<open>catch\<close> block shared by the handlers: status 500 with \<open>error.message\<close>.\<close>

definition server_error :: "pg_error \<Rightarrow> response" where
  "server_error error = reply 500 [(''success'', JBool False), (''error'', JStr (message error))]"

text \<open>\<open>x % m\<close> on numbers that are not negative, and \<open>Math.floor\<close>.\<close>

definition remainder :: "rat \<Rightarrow> rat \<Rightarrow> rat" where
  "remainder x m = x - m * of_int \<lfloor>x / m\<rfloor>"

definition Math_floor :: "rat \<Rightarrow> nat" where
  "Math_floor x = nat \<lfloor>x\<rfloor>"

definition uptime_text :: "rat \<Rightarrow> string" where
  "uptime_text up =
     (let days = Math_floor (up / (3600 * 24));
          hours = Math_floor (remainder up (3600 * 24) / 3600);
          minutes = Math_floor (remainder up 3600 / 60);
          seconds = Math_floor (remainder up 60)
      in dec days @ ''d '' @ dec hours @ ''h '' @ dec minutes @ ''m '' @ dec seconds @ ''s'')"

subsection \<open>Health, information and samples\<close>

definition get_health :: "env \<Rightarrow> db \<Rightarrow> response \<times> db" where
  "get_health ev s =
     (case pool_query SELECT_1 s of
        (Inr _, s1) \<Rightarrow>
          (reply 200
             [(''service'', JStr ''backend-api''), (''status'', JStr ''healthy''),
              (''timestamp'', JDate (date_now ev)),
              (''database'', JObj [(''status'', JStr ''connected''),
                                   (''server_time'', JDate (date_now ev))]),
              (''environment'', JStr (or_default (NODE_ENV ev) ''development'')),
              (''uptime'', JFrac (uptime ev))], s1)
      | (Inl error, s1) \<Rightarrow>
          (reply 500
             [(''service'', JStr ''backend-api''), (''status'', JStr ''unhealthy''),
              (''timestamp'', JDate (date_now ev)),
              (''database'', JObj [(''status'', JStr ''disconnected''),
                                   (''error'', JStr (message error))]),
              (''environment'', JStr (or_default (NODE_ENV ev) ''development''))], s1))"

definition get_db_test :: "db \<Rightarrow> response \<times> db" where
  "get_db_test s =
     (case pool_query SELECT_now_version s of
        (Inr result, s1) \<Rightarrow>
          (reply 200
             ([(''success'', JBool True)] @ first_row ''data'' result @
              [(''message'', JStr (''Conexi'' @ [CHR 0xF3] @ ''n a PostgreSQL exitosa''))]), s1)
      | (Inl error, s1) \<Rightarrow>
          (reply 500
             [(''success'', JBool False), (''error'', JStr (message error)),
              (''message'', JStr ''Error al conectar con PostgreSQL'')], s1))"

definition endpoint :: "string \<Rightarrow> string \<Rightarrow> string \<Rightarrow> json" where
  "endpoint m p d = JObj [(''method'', JStr m), (''path'', JStr p), (''description'', JStr d)]"

definition get_system_info :: "env \<Rightarrow> response" where
  "get_system_info ev =
     reply 200
       [(''success'', JBool True),
        (''service'', JStr ''Backend API - Proyecto Grupal 2''),
        (''version'', JStr ''3.0.0''),
        (''description'',
           JStr ''API REST con Node.js, Express y PostgreSQL para proyecto Docker''),
        (''endpoints'', JArr
           [endpoint ''GET'' ''/health'' (''Estado del sistema y conexi'' @ [CHR 0xF3] @ ''n a BD''),
            endpoint ''GET'' ''/db-test'' (''Prueba de conexi'' @ [CHR 0xF3] @ ''n a PostgreSQL''),
            endpoint ''GET'' ''/users'' ''Obtener todos los usuarios'',
            endpoint ''GET'' ''/users/:id'' ''Obtener usuario por ID'',
            endpoint ''POST'' ''/users'' ''Crear nuevo usuario'',
            endpoint ''PUT'' ''/users/:id'' ''Actualizar usuario'',
            endpoint ''DELETE'' ''/users/:id'' ''Eliminar usuario'',
            endpoint ''GET'' ''/products'' ''Obtener todos los productos'',
            endpoint ''GET'' ''/stats'' (''Estad'' @ [CHR 0xED] @ ''sticas del sistema''),
            endpoint ''GET'' ''/system-info'' (''Informaci'' @ [CHR 0xF3] @ ''n completa del API''),
            endpoint ''GET'' ''/info'' (''Informaci'' @ [CHR 0xF3] @ ''n b'' @ [CHR 0xE1] @ ''sica''),
            endpoint ''GET'' ''/data'' ''Datos de ejemplo'',
            endpoint ''POST'' ''/echo'' ''Echo endpoint (POST)'']),
        (''database'', JObj [(''type'', JStr ''PostgreSQL''), (''connected'', JBool True),
                             (''host'', JStr (or_default (DB_HOST ev) ''database''))]),
        (''server'', JObj [(''start_time'', JDate (START_TIME ev)),
                           (''uptime'', JStr (uptime_text (uptime ev))),
                           (''node_version'', JStr (node_version ev)),
                           (''environment'', JStr (or_default (NODE_ENV ev) ''development'')),
                           (''memory_usage'', memory_usage ev)]),
        (''project'', JObj [(''name'', JStr ''Proyecto Grupal 2 - Docker''),
                            (''members'', JNum 3),
                            (''services'', JArr [JStr ''Backend API'', JStr ''PostgreSQL'',
                                                 JStr ''Frontend Nginx''])])]"

definition get_info :: response where
  "get_info =
     reply 200
       [(''service'', JStr ''Backend API''), (''version'', JStr ''3.0.0''),
        (''endpoints'', JArr (map JStr [''/health'', ''/db-test'', ''/users'', ''/products'',
                                        ''/stats'', ''/system-info'', ''/info'', ''/data'',
                                        ''/echo''])),
        (''database'', JStr ''PostgreSQL''),
        (''documentation'', JStr ''Ver README.md o endpoint /system-info'')]"

definition item :: "int \<Rightarrow> string \<Rightarrow> int \<Rightarrow> json" where
  "item i n v = JObj [(''id'', JNum i), (''name'', JStr n), (''value'', JNum v)]"

definition get_data :: "env \<Rightarrow> response" where
  "get_data ev =
     reply 200
       [(''message'', JStr ''Datos desde el backend''),
        (''items'', JArr [item 1 ''Item A'' 100, item 2 ''Item B'' 200, item 3 ''Item C'' 300]),
        (''total'', JNum 3),
        (''generatedAt'', JDate (date_now ev))]"

definition post_echo :: "env \<Rightarrow> json \<Rightarrow> response" where
  "post_echo ev receivedData =
     reply 200
       [(''received'', receivedData), (''echoedAt'', JDate (date_now ev)),
        (''message'', JStr ''Datos recibidos correctamente'')]"

subsection \<open>Users\<close>

definition get_users :: "db \<Rightarrow> response \<times> db" where
  "get_users s =
     (case pool_query SELECT_usuarios s of
        (Inr result, s1) \<Rightarrow>
          (reply 200
             [(''success'', JBool True), (''count'', JNum (int (rowCount result))),
              (''users'', JArr (rows result))], s1)
      | (Inl error, s1) \<Rightarrow> (server_error error, s1))"

definition not_found :: "string \<Rightarrow> response" where
  "not_found i =
     reply 404
       [(''success'', JBool False),
        (''error'', JStr (''Usuario con ID '' @ i @ '' no encontrado''))]"

definition get_users_id :: "string \<Rightarrow> db \<Rightarrow> response \<times> db" where
  "get_users_id i s =
     (case pool_query (SELECT_usuarios_WHERE_id i) s of
        (Inr result, s1) \<Rightarrow>
          if rowCount result = 0 then (not_found i, s1)
          else (reply 200 ([(''success'', JBool True)] @ first_row ''user'' result), s1)
      | (Inl error, s1) \<Rightarrow> (server_error error, s1))"

text \<open>
  The pattern \<open>/^[^\s@]+@[^\s@]+\.[^\s@]+$/\<close>. A character of the class \<open>[^\s@]\<close> is neither
  white space nor \<open>@\<close>, so a match has exactly one \<open>@\<close>: the longest prefix in the class is the
  local part, and what follows the \<open>@\<close> is in the class and has a dot that is neither its
  first nor its last character.
\<close>

definition regex_space :: "char \<Rightarrow> bool" where
  "regex_space c = (is_space c \<or> c = CHR 0xA0)"

definition not_space_at :: "char \<Rightarrow> bool" where
  "not_space_at c = (\<not> regex_space c \<and> c \<noteq> CHR ''@'')"

definition emailRegex_test :: "string \<Rightarrow> bool" where
  "emailRegex_test s =
     (takeWhile not_space_at s \<noteq> [] \<and>
      (case dropWhile not_space_at s of
         [] \<Rightarrow> False
       | c # d \<Rightarrow> c = CHR ''@'' \<and> list_all not_space_at d \<and> CHR ''.'' \<in> set (butlast (tl d))))"

definition post_users :: "user_body \<Rightarrow> db \<Rightarrow> response \<times> db" where
  "post_users b s =
     (if \<not> truthy (nombre b) \<or> \<not> truthy (email b) then
        (reply 400
           [(''success'', JBool False),
            (''error'', JStr ''Nombre y email son campos requeridos'')], s)
      else if \<not> emailRegex_test (str (email b)) then
        (reply 400
           [(''success'', JBool False),
            (''error'', JStr (''Formato de email inv'' @ [CHR 0xE1] @ ''lido''))], s)
      else
        case pool_query (INSERT_usuarios (str (nombre b)) (str (email b))) s of
          (Inr result, s1) \<Rightarrow>
            (reply 201
               ([(''success'', JBool True), (''message'', JStr ''Usuario creado exitosamente'')]
                @ first_row ''user'' result), s1)
        | (Inl error, s1) \<Rightarrow>
            if code error = Some ''23505'' then
              (reply 409
                 [(''success'', JBool False),
                  (''error'', JStr (''El email '' @ sq (str (email b)) @ '' ya est''
                                    @ [CHR 0xE1] @ '' registrado''))], s1)
            else (server_error error, s1))"

text \<open>
  \<open>PUT /users/:id\<close>. \<open>updates\<close> holds the assignments for the truthy fields, in the order
  \<open>nombre\<close>, \<open>email\<close>; the statement text appends \<open>actualizado_en = CURRENT_TIMESTAMP\<close> to them.
\<close>

definition put_catch :: "user_body \<Rightarrow> pg_error \<Rightarrow> response" where
  "put_catch b error =
     (if code error = Some ''23505'' then
        reply 409
          [(''success'', JBool False),
           (''error'', JStr (''El email '' @ sq (str (email b)) @ '' ya est'' @ [CHR 0xE1]
                             @ '' registrado por otro usuario''))]
      else server_error error)"

definition put_updates :: "user_body \<Rightarrow> (string \<times> sql_expr) list" where
  "put_updates b =
     (if truthy (nombre b) then [(''nombre'', Param (str (nombre b)))] else []) @
     (if truthy (email b) then [(''email'', Param (str (email b)))] else [])"

definition put_users_id :: "string \<Rightarrow> user_body \<Rightarrow> db \<Rightarrow> response \<times> db" where
  "put_users_id i b s =
     (if \<not> truthy (nombre b) \<and> \<not> truthy (email b) then
        (reply 400
           [(''success'', JBool False),
            (''error'',
               JStr ''Se requiere al menos un campo para actualizar (nombre o email)'')], s)
      else
        case pool_query (SELECT_usuarios_WHERE_id i) s of
          (Inl error, s1) \<Rightarrow> (put_catch b error, s1)
        | (Inr checkResult, s1) \<Rightarrow>
            if rowCount checkResult = 0 then (not_found i, s1)
            else
              (case pool_query
                      (UPDATE_usuarios
                         (put_updates b @ [(''actualizado_en'', CURRENT_TIMESTAMP)]) i) s1 of
                 (Inl error, s2) \<Rightarrow> (put_catch b error, s2)
               | (Inr result, s2) \<Rightarrow>
                   (reply 200
                      ([(''success'', JBool True),
                        (''message'', JStr ''Usuario actualizado exitosamente'')]
                       @ first_row ''user'' result), s2)))"

definition delete_users_id :: "string \<Rightarrow> db \<Rightarrow> response \<times> db" where
  "delete_users_id i s =
     (case pool_query (DELETE_usuarios_WHERE_id i) s of
        (Inr result, s1) \<Rightarrow>
          if rowCount result = 0 then (not_found i, s1)
          else
            (reply 200
               ([(''success'', JBool True), (''message'', JStr ''Usuario eliminado exitosamente'')]
                @ first_row ''deleted_user'' result), s1)
      | (Inl error, s1) \<Rightarrow> (server_error error, s1))"

subsection \<open>Products and statistics\<close>

definition get_products :: "db \<Rightarrow> response \<times> db" where
  "get_products s =
     (case pool_query SELECT_productos s of
        (Inr result, s1) \<Rightarrow>
          (reply 200
             [(''success'', JBool True), (''count'', JNum (int (rowCount result))),
              (''products'', JArr (rows result))], s1)
      | (Inl error, s1) \<Rightarrow> (server_error error, s1))"

text \<open>
  \<open>parseInt(v) || 0\<close> on a column of a row: the decimal digits at the start of a text (after
  white space and a sign), and 0 when there are none or the value is missing or \<open>null\<close>.
\<close>

definition get_prop :: "string \<Rightarrow> json \<Rightarrow> json option" where
  "get_prop k j = (case j of JObj kvs \<Rightarrow> map_of kvs k | _ \<Rightarrow> None)"

definition parseInt :: "json option \<Rightarrow> int option" where
  "parseInt v =
     (case v of
        Some (JStr t) \<Rightarrow>
          (let (neg, r) = signed_digits (dropWhile regex_space t);
               ds = takeWhile is_digit r
           in if ds = [] then None
              else Some (if neg then - int (digits_val ds) else int (digits_val ds)))
      | Some (JNum n) \<Rightarrow> Some n
      | _ \<Rightarrow> None)"

definition or_zero :: "int option \<Rightarrow> int" where
  "or_zero v = (case v of None \<Rightarrow> 0 | Some n \<Rightarrow> n)"

definition opt_field :: "string \<Rightarrow> json option \<Rightarrow> (string \<times> json) list" where
  "opt_field k v = (case v of None \<Rightarrow> [] | Some j \<Rightarrow> [(k, j)])"

text \<open>
  \<open>GET /stats\<close> sends its three queries before it waits for any of them (\<open>Promise.all\<close>);
  the error of the first that failed is the one caught. Reading a column of \<open>rows[0]\<close> when
  there is no row is a \<open>TypeError\<close>, caught by the same block.
\<close>

definition stats_payload :: "env \<Rightarrow> json \<Rightarrow> json \<Rightarrow> json \<Rightarrow> response" where
  "stats_payload ev u p d =
     reply 200
       [(''success'', JBool True),
        (''stats'', JObj
           [(''users'', JObj [(''total'', JNum (or_zero (parseInt (get_prop ''total'' u))))]),
            (''products'', JObj
               [(''total'', JNum (or_zero (parseInt (get_prop ''total'' p)))),
                (''total_stock'', JNum (or_zero (parseInt (get_prop ''total_stock'' p))))]),
            (''database'', JObj (opt_field ''version'' (get_prop ''version'' d)
                                 @ [(''connection'', JStr ''active'')])),
            (''api'', JObj
               [(''uptime'', JStr (uptime_text (uptime ev))),
                (''start_time'', JDate (START_TIME ev)),
                (''environment'', JStr (or_default (NODE_ENV ev) ''development'')),
                (''memory_usage'',
                   JStr (dec ((heap_used ev + 524288) div 1048576) @ ''MB''))])])]"

definition type_error :: pg_error where
  "type_error =
     \<lparr>code = None,
      message = ''Cannot read properties of undefined (reading '' @ sq ''total'' @ '')''\<rparr>"

definition get_stats :: "env \<Rightarrow> db \<Rightarrow> response \<times> db" where
  "get_stats ev s =
     (let (r1, s1) = pool_query SELECT_count_usuarios s;
          (r2, s2) = pool_query SELECT_count_productos s1;
          (r3, s3) = pool_query SELECT_version s2
      in case r1 of
           Inl error \<Rightarrow> (server_error error, s3)
         | Inr usersResult \<Rightarrow>
            (case r2 of
               Inl error \<Rightarrow> (server_error error, s3)
             | Inr productsResult \<Rightarrow>
                (case r3 of
                   Inl error \<Rightarrow> (server_error error, s3)
                 | Inr dbResult \<Rightarrow>
                    (case (rows usersResult, rows productsResult, rows dbResult) of
                       (u # _, p # _, d # _) \<Rightarrow> (stats_payload ev u p d, s3)
                     | _ \<Rightarrow> (server_error type_error, s3)))))"

subsection \<open>Fallbacks and dispatch\<close>

text \<open>
  The terminal error handler: \<open>err.status || 500\<close>, \<open>err.message || 'Error interno del
  servidor'\<close>, and \<open>err.stack\<close> only when \<open>NODE_ENV\<close> is \<open>development\<close>.
\<close>

definition error_handler :: "env \<Rightarrow> js_error \<Rightarrow> response" where
  "error_handler ev err =
     reply (case err_status err of None \<Rightarrow> 500 | Some n \<Rightarrow> if n = 0 then 500 else n)
       ([(''success'', JBool False),
         (''error'', JStr (if err_message err = [] then ''Error interno del servidor''
                           else err_message err))]
        @ (if NODE_ENV ev = Some ''development''
           then (case err_stack err of None \<Rightarrow> [] | Some t \<Rightarrow> [(''stack'', JStr t)])
           else []))"

text \<open>The answer of the CORS middleware to an \<open>OPTIONS\<close> request: status 204, headers, and
  no payload at all (written here as the payload without any field).\<close>

definition preflight :: response where
  "preflight = reply 204 []"

definition route_not_found :: response where
  "route_not_found =
     reply 404
       [(''success'', JBool False), (''error'', JStr ''Ruta no encontrada''),
        (''available_routes'',
           JArr (map JStr [''/health'', ''/db-test'', ''/system-info'', ''/info'', ''/data'',
                           ''/echo'', ''/users'', ''/users/:id'', ''/products'', ''/stats'']))]"

fun handle :: "env \<Rightarrow> request \<Rightarrow> db \<Rightarrow> response \<times> db" where
  "handle ev GET_health s = get_health ev s"
| "handle ev GET_db_test s = get_db_test s"
| "handle ev GET_system_info s = (get_system_info ev, s)"
| "handle ev GET_info s = (get_info, s)"
| "handle ev GET_data s = (get_data ev, s)"
| "handle ev (POST_echo j) s = (post_echo ev j, s)"
| "handle ev GET_users s = get_users s"
| "handle ev (GET_users_id i) s = get_users_id i s"
| "handle ev (POST_users b) s = post_users b s"
| "handle ev (PUT_users_id i b) s = put_users_id i b s"
| "handle ev (DELETE_users_id i) s = delete_users_id i s"
| "handle ev GET_products s = get_products s"
| "handle ev GET_stats s = get_stats ev s"
| "handle ev OPTIONS s = (preflight, s)"
| "handle ev Unmatched s = (route_not_found, s)"
| "handle ev (Body_rejected err) s = (error_handler ev err, s)"

section \<open>Start of the process\<close>

text \<open>
  The variant of the backend that checks the store before it listens
  (\<open>checkDatabaseConnection\<close>, \<open>startServer\<close>). \<open>pool.connect()\<close> is the environment's:
  \<open>connect i\<close> tells whether the attempt numbered \<open>i\<close> (from 0) reaches the store. What the
  process does is recorded as a trace of events, oldest first.
\<close>

datatype event =
    Connect
  | Release
  | Log_connected nat nat
  | Log_waiting nat nat
  | Sleep nat
  | Error_no_connection
  | Warn_without_database
  | Listen
  | Log_started bool
  | Error_starting
  | Log_connect_error

datatype process = Listening | Exited nat | Crashed

text \<open>What \<open>app.listen\<close> does: it listens, it throws, or it returns and the server then emits
  an error that nothing handles (the port is taken).\<close>

datatype listen = Listens | Throws | Fails_later

function checkDatabaseConnection_loop ::
  "(nat \<Rightarrow> bool) \<Rightarrow> nat \<Rightarrow> nat \<Rightarrow> nat \<Rightarrow> bool \<times> event list" where
  "checkDatabaseConnection_loop connect retries delay i =
     (if i < retries then
        (if connect i then (True, [Connect, Log_connected (i + 1) retries, Release])
         else
           let (r, tr) = checkDatabaseConnection_loop connect retries delay (i + 1)
           in (r, [Connect, Log_waiting (i + 1) retries]
                  @ (if i < retries - 1 then [Sleep delay] else []) @ tr))
      else (False, [Error_no_connection]))"
  by pat_completeness auto
termination
  by (relation "measure (\<lambda>(connect, retries, delay, i). retries - i)") auto

declare checkDatabaseConnection_loop.simps [simp del]

text \<open>The default arguments: \<open>retries = 5\<close>, \<open>delay = 2000\<close>.\<close>

definition checkDatabaseConnection :: "(nat \<Rightarrow> bool) \<Rightarrow> bool \<times> event list" where
  "checkDatabaseConnection connect = checkDatabaseConnection_loop connect 5 2000 0"

text \<open>
  \<open>startServer\<close>: a throw of \<open>app.listen\<close> is the one way into the \<open>catch\<close> block that ends
  the process with \<open>process.exit(1)\<close>.
\<close>

definition startServer :: "(nat \<Rightarrow> bool) \<Rightarrow> listen \<Rightarrow> process \<times> event list" where
  "startServer connect l =
     (let (dbConnected, tr) = checkDatabaseConnection connect;
          tr1 = tr @ (if \<not> dbConnected then [Warn_without_database] else [])
      in case l of
           Throws \<Rightarrow> (Exited 1, tr1 @ [Error_starting])
         | Listens \<Rightarrow> (Listening, tr1 @ [Listen, Log_started dbConnected])
         | Fails_later \<Rightarrow> (Crashed, tr1 @ [Listen]))"

text \<open>The health check of that variant (\<open>SELECT NOW() as db_time\<close>, with the latency).\<close>

definition get_health_v2 :: "env \<Rightarrow> db \<Rightarrow> response \<times> db" where
  "get_health_v2 ev s =
     (let unhealthy = (\<lambda>error.
            reply 500
              [(''service'', JStr ''backend-api''), (''status'', JStr ''unhealthy''),
               (''timestamp'', JDate (date_now ev)),
               (''database'', JObj [(''status'', JStr ''disconnected''),
                                    (''error'', JStr (message error))])])
      in case pool_query SELECT_now s of
           (Inl error, s1) \<Rightarrow> (unhealthy error, s1)
         | (Inr dbCheck, s1) \<Rightarrow>
            (case rows dbCheck of
               [] \<Rightarrow>
                 (unhealthy
                    \<lparr>code = None,
                     message = ''Cannot read properties of undefined (reading ''
                               @ sq ''db_time'' @ '')''\<rparr>, s1)
             | row # _ \<Rightarrow>
                 (reply 200
                    [(''service'', JStr ''backend-api''), (''status'', JStr ''healthy''),
                     (''timestamp'', JDate (date_now ev)),
                     (''database'', JObj
                        ([(''status'', JStr ''connected'')]
                         @ opt_field ''server_time'' (get_prop ''db_time'' row)
                         @ [(''latency'',
                             JStr ((case get_prop ''db_time'' row of
                                      Some (JDate t) \<Rightarrow> dec_int (int (date_now ev) - int t)
                                    | _ \<Rightarrow> ''NaN'') @ ''ms''))])),
                     (''environment'', JStr (or_default (NODE_ENV ev) ''development''))], s1)))"

text \<open>
  The variant with the full set of routes connects once while it starts
  (\<open>pool.connect().then(...).catch(...)\<close>) and listens whatever the outcome.
\<close>

definition start_v3 :: "bool \<Rightarrow> listen \<Rightarrow> process \<times> event list" where
  "start_v3 reached l =
     (case l of
        Listens \<Rightarrow>
          (Listening,
           [Connect, Listen, if reached then Log_connected 1 1 else Log_connect_error])
      | _ \<Rightarrow> (Crashed, [Connect]))"

section \<open>The store after \<open>init.sql\<close>\<close>

definition init_sql :: "timestamp \<Rightarrow> string \<Rightarrow> db" where
  "init_sql t v =
     \<lparr>usuarios =
        [\<lparr>usuario_id = 1, usuario_nombre = ''Juan P'' @ [CHR 0xE9] @ ''rez'',
          usuario_email = ''juan@example.com'', usuario_creado_en = t\<rparr>,
         \<lparr>usuario_id = 2, usuario_nombre = ''Mar'' @ [CHR 0xED] @ ''a Garc'' @ [CHR 0xED] @ ''a'',
          usuario_email = ''maria@example.com'', usuario_creado_en = t\<rparr>],
      usuarios_id_seq = 2,
      productos =
        [\<lparr>producto_id = 1, producto_nombre = ''Laptop'', producto_precio = ''1200.00'',
          producto_stock = Some 10, producto_creado_en = t\<rparr>,
         \<lparr>producto_id = 2, producto_nombre = ''Mouse'', producto_precio = ''25.50'',
          producto_stock = Some 50, producto_creado_en = t\<rparr>,
         \<lparr>producto_id = 3, producto_nombre = ''Teclado'', producto_precio = ''45.00'',
          producto_stock = Some 30, producto_creado_en = t\<rparr>],
      db_time = t, db_version = v, outage = None, query_log = [], thrown = []\<rparr>"

text \<open>
  What the constraints of the schema and the sequence keep true of the table: identifiers
  and emails are unique, and no identifier is beyond the sequence.
\<close>

definition store_ok :: "db \<Rightarrow> bool" where
  "store_ok s =
     (distinct (map usuario_id (usuarios s)) \<and> distinct (map usuario_email (usuarios s)) \<and>
      list_all (\<lambda>u. usuario_id u \<le> usuarios_id_seq s) (usuarios s))"

section \<open>Vocabulary of the claims\<close>

text \<open>A process in production mode, for concrete runs.\<close>

definition production :: env where
  "production =
     \<lparr>NODE_ENV = Some ''production'', DB_HOST = None, date_now = 0, uptime = 0,
      START_TIME = 0, node_version = ''v18.0.0'', memory_usage = JObj [], heap_used = 0\<rparr>"

text \<open>The routes whose handlers write no \<open>success\<close> key into any payload.\<close>

fun plain_route :: "request \<Rightarrow> bool" where
  "plain_route GET_health = True"
| "plain_route GET_info = True"
| "plain_route GET_data = True"
| "plain_route (POST_echo j) = True"
| "plain_route OPTIONS = True"
| "plain_route r = False"

text \<open>Where a failure payload carries the text of the error: the key \<open>error\<close>, or for the
  health check the key \<open>error\<close> of the object under \<open>database\<close>.\<close>

definition error_detail :: "response \<Rightarrow> json option" where
  "error_detail r =
     (case field ''error'' r of
        Some j \<Rightarrow> Some j
      | None \<Rightarrow> (case field ''database'' r of Some d \<Rightarrow> get_prop ''error'' d | None \<Rightarrow> None))"

text \<open>The statements sent and the errors thrown between two states of the store.\<close>

definition issued :: "db \<Rightarrow> db \<Rightarrow> stmt list" where
  "issued s s1 = drop (length (query_log s)) (query_log s1)"

definition raised :: "db \<Rightarrow> db \<Rightarrow> (stmt \<times> pg_error) list" where
  "raised s s1 = drop (length (thrown s)) (thrown s1)"

text \<open>The requests that create or update a user: their \<open>catch\<close> blocks single out the
  SQLSTATE 23505.\<close>

fun writes_user :: "request \<Rightarrow> bool" where
  "writes_user (POST_users b) = True"
| "writes_user (PUT_users_id i b) = True"
| "writes_user r = False"

section \<open>Basic facts about the store and the handlers\<close>

lemma status_reply [simp]: "status (reply n obj) = n"
  by (simp add: reply_def)

lemma body_reply [simp]: "body (reply n obj) = obj"
  by (simp add: reply_def)

lemma emailRegex_test_nonempty: "emailRegex_test e \<Longrightarrow> e \<noteq> []"
  by (auto simp: emailRegex_test_def)

lemma exec_query_log [simp]: "query_log (snd (exec q s)) = query_log s"
  by (cases q)
     (auto simp: insert_usuario_def update_usuarios_def Let_def
           split: sum.splits option.splits list.splits)

lemma exec_outage [simp]: "outage (snd (exec q s)) = outage s"
  by (cases q)
     (auto simp: insert_usuario_def update_usuarios_def Let_def
           split: sum.splits option.splits list.splits)

lemma exec_thrown [simp]: "thrown (snd (exec q s)) = thrown s"
  by (cases q)
     (auto simp: insert_usuario_def update_usuarios_def Let_def
           split: sum.splits option.splits list.splits)

lemma pool_query_down:
  "outage s = Some err \<Longrightarrow>
   pool_query q s
     = (Inl err, s\<lparr>query_log := query_log s @ [q], thrown := thrown s @ [(q, err)]\<rparr>)"
  by (simp add: pool_query_def)

lemma pool_query_up:
  "outage s = None \<Longrightarrow>
   pool_query q s
     = (case exec q (s\<lparr>query_log := query_log s @ [q]\<rparr>) of
          (Inl error, s2) \<Rightarrow> (Inl error, s2\<lparr>thrown := thrown s2 @ [(q, error)]\<rparr>)
        | (Inr result, s2) \<Rightarrow> (Inr result, s2))"
  by (simp add: pool_query_def)

lemma pool_query_log [simp]: "query_log (snd (pool_query q s)) = query_log s @ [q]"
proof (cases "outage s")
  case None
  have "query_log (snd (exec q (s\<lparr>query_log := query_log s @ [q]\<rparr>))) = query_log s @ [q]"
    by simp
  then show ?thesis
    by (cases "exec q (s\<lparr>query_log := query_log s @ [q]\<rparr>)")
       (auto simp: pool_query_up [OF None] split: sum.splits)
next
  case (Some m)
  then show ?thesis by (simp add: pool_query_down)
qed

lemma pool_query_outage [simp]: "outage (snd (pool_query q s)) = outage s"
proof (cases "outage s")
  case None
  have "outage (snd (exec q (s\<lparr>query_log := query_log s @ [q]\<rparr>))) = outage s"
    by simp
  then show ?thesis
    by (cases "exec q (s\<lparr>query_log := query_log s @ [q]\<rparr>)")
       (auto simp: pool_query_up [OF None] split: sum.splits)
next
  case (Some m)
  then show ?thesis by (simp add: pool_query_down)
qed

text \<open>The table has no column \<open>actualizado_en\<close>: the statement of \<open>PUT /users/:id\<close> is refused
  when it is analysed, and the table stays as it is.\<close>

lemma put_updates_columns:
  "find (\<lambda>a. map_of usuarios_columns (fst a) = None)
        (put_updates b @ [(''actualizado_en'', x)]) = Some (''actualizado_en'', x)"
  by (simp add: put_updates_def usuarios_columns_def)

lemma update_actualizado_en:
  "update_usuarios (put_updates b @ [(''actualizado_en'', x)]) i s
     = (Inl (undefined_column ''actualizado_en''), s)"
  by (simp add: update_usuarios_def put_updates_columns)

lemma select_by_id_table [simp]:
  "usuarios (snd (pool_query (SELECT_usuarios_WHERE_id i) s)) = usuarios s"
  by (simp add: pool_query_def Let_def split: option.splits sum.splits)

lemma put_update_up:
  "outage s = None \<Longrightarrow>
   pool_query (UPDATE_usuarios (put_updates b @ [(''actualizado_en'', x)]) i) s
     = (Inl (undefined_column ''actualizado_en''),
        s\<lparr>query_log := query_log s
                          @ [UPDATE_usuarios (put_updates b @ [(''actualizado_en'', x)]) i],
          thrown := thrown s
                    @ [(UPDATE_usuarios (put_updates b @ [(''actualizado_en'', x)]) i,
                        undefined_column ''actualizado_en'')]\<rparr>)"
  by (simp add: pool_query_up update_actualizado_en)

lemma put_update_table [simp]:
  "usuarios (snd (pool_query (UPDATE_usuarios (put_updates b @ [(''actualizado_en'', x)]) i) s))
     = usuarios s"
  by (cases "outage s") (simp_all add: put_update_up pool_query_down)

lemma select_by_id_tableD:
  "pool_query (SELECT_usuarios_WHERE_id i) s = (r, s1) \<Longrightarrow> usuarios s1 = usuarios s"
  using select_by_id_table [of i s] by simp

lemma put_update_tableD:
  "pool_query (UPDATE_usuarios (put_updates b @ [(''actualizado_en'', x)]) i) s = (r, s1)
   \<Longrightarrow> usuarios s1 = usuarios s"
  using put_update_table [of b x i s] by simp

lemma put_users_id_table: "usuarios (snd (put_users_id i b s)) = usuarios s"
  by (auto simp: put_users_id_def split: prod.splits sum.splits
           dest!: select_by_id_tableD put_update_tableD)

lemma rowCount_returning [simp]: "rowCount (returning rs) = length rs"
  by (simp add: returning_def)

lemma rows_returning [simp]: "rows (returning rs) = rs"
  by (simp add: returning_def)

lemma select_by_id_up:
  assumes "outage s = None" "int4in i = Inr n"
  shows "pool_query (SELECT_usuarios_WHERE_id i) s
         = (Inr (returning (map usuario_row (filter (\<lambda>u. usuario_id u = n) (usuarios s)))),
            s\<lparr>query_log := query_log s @ [SELECT_usuarios_WHERE_id i]\<rparr>)"
  using assms by (simp add: pool_query_up)

text \<open>On a reachable store, an update of an existing user with a truthy field always ends
  in the \<open>catch\<close> block with the error of the missing column.\<close>

lemma put_users_id_existing:
  assumes up: "outage s = None" and i: "int4in i = Inr n"
    and ex: "n \<in> usuario_id ` set (usuarios s)"
    and t: "truthy (nombre b) \<or> truthy (email b)"
  shows "put_users_id i b s
         = (server_error (undefined_column ''actualizado_en''),
            s\<lparr>query_log := query_log s @
                 [SELECT_usuarios_WHERE_id i,
                  UPDATE_usuarios (put_updates b @ [(''actualizado_en'', CURRENT_TIMESTAMP)]) i],
              thrown := thrown s
                @ [(UPDATE_usuarios (put_updates b @ [(''actualizado_en'', CURRENT_TIMESTAMP)]) i,
                    undefined_column ''actualizado_en'')]\<rparr>)"
proof -
  from ex have ne: "filter (\<lambda>u. usuario_id u = n) (usuarios s) \<noteq> []"
    by (auto simp: filter_empty_conv)
  from t have nt: "\<not> (\<not> truthy (nombre b) \<and> \<not> truthy (email b))"
    by blast
  have c: "code (undefined_column ''actualizado_en'') \<noteq> Some ''23505''"
    by (simp add: undefined_column_def)
  show ?thesis
    using nt ne c
    by (auto simp: put_users_id_def select_by_id_up [OF up i] put_update_up up put_catch_def)
qed

text \<open>What one call of \<open>pool.query\<close> adds to the ghost fields.\<close>

lemma pool_query_thrown:
  "thrown (snd (pool_query q s))
     = (case fst (pool_query q s) of Inl e \<Rightarrow> thrown s @ [(q, e)] | Inr r \<Rightarrow> thrown s)"
proof (cases "outage s")
  case None
  have "thrown (snd (exec q (s\<lparr>query_log := query_log s @ [q]\<rparr>))) = thrown s"
    by simp
  then show ?thesis
    by (cases "exec q (s\<lparr>query_log := query_log s @ [q]\<rparr>)")
       (auto simp: pool_query_up [OF None] split: sum.splits)
next
  case (Some m)
  then show ?thesis by (simp add: pool_query_down)
qed

lemma pool_queryD:
  "pool_query q s = (r, s1) \<Longrightarrow>
   query_log s1 = query_log s @ [q] \<and> outage s1 = outage s
   \<and> thrown s1 = (case r of Inl e \<Rightarrow> thrown s @ [(q, e)] | Inr x \<Rightarrow> thrown s)"
  using pool_query_log [of q s] pool_query_outage [of q s] pool_query_thrown [of q s] by simp

lemmas handler_defs =
  get_health_def get_db_test_def get_users_def get_users_id_def post_users_def
  put_users_id_def delete_users_id_def get_products_def get_stats_def

lemma handle_query_log:
  "query_log (snd (handle ev req s)) = query_log s @ issued s (snd (handle ev req s))"
  by (cases req)
     (auto simp: handler_defs issued_def Let_def
           split: prod.splits sum.splits list.splits dest!: pool_queryD)

lemma issued_shape:
  "(case req of
      GET_stats \<Rightarrow>
        issued s (snd (handle ev req s))
          = [SELECT_count_usuarios, SELECT_count_productos, SELECT_version]
    | PUT_users_id i b \<Rightarrow>
        issued s (snd (handle ev req s))
          \<in> {[], [SELECT_usuarios_WHERE_id i],
              [SELECT_usuarios_WHERE_id i,
               UPDATE_usuarios (put_updates b @ [(''actualizado_en'', CURRENT_TIMESTAMP)]) i]}
    | _ \<Rightarrow> length (issued s (snd (handle ev req s))) \<le> 1)"
  by (cases req)
     (auto simp: handler_defs issued_def Let_def
           split: prod.splits sum.splits list.splits dest!: pool_queryD)

lemma issued_distinct: "distinct (issued s (snd (handle ev req s)))"
  using issued_shape [where req = req and s = s and ev = ev]
  by (cases req) (auto simp: le_Suc_eq length_Suc_conv)

lemma raised_last:
  "req \<noteq> GET_stats \<Longrightarrow>
   raised s (snd (handle ev req s)) = []
   \<or> (issued s (snd (handle ev req s)) \<noteq> []
      \<and> (\<exists>e. raised s (snd (handle ev req s)) = [(last (issued s (snd (handle ev req s))), e)]))"
  by (cases req)
     (auto simp: handler_defs issued_def raised_def Let_def
           split: prod.splits sum.splits list.splits
           dest!: pool_queryD)

lemma raised_reported:
  "raised s (snd (handle ev req s)) = (q, e) # es \<longrightarrow>
     (if writes_user req \<and> code e = Some ''23505''
      then status (fst (handle ev req s)) = 409
      else status (fst (handle ev req s)) = 500
           \<and> error_detail (fst (handle ev req s)) = Some (JStr (message e)))"
  by (cases req)
     (auto simp: handler_defs raised_def Let_def put_catch_def server_error_def error_detail_def
                 field_def get_prop_def not_found_def
           split: prod.splits sum.splits list.splits
           dest!: pool_queryD)

lemma body_error_handler:
  "body (error_handler ev err)
     = [(''success'', JBool False),
        (''error'', JStr (if err_message err = [] then ''Error interno del servidor''
                          else err_message err))]
       @ (if NODE_ENV ev = Some ''development''
          then (case err_stack err of None \<Rightarrow> [] | Some t \<Rightarrow> [(''stack'', JStr t)])
          else [])"
  by (simp only: error_handler_def body_reply)

lemma stack_gated:
  "has_field ''stack'' (error_handler ev err)
     = (NODE_ENV ev = Some ''development'' \<and> err_stack err \<noteq> None)"
proof (cases "err_stack err")
  case None
  show ?thesis
    unfolding has_field_def body_error_handler None
    by (simp only: option.case if_cancel append_Nil2 map_of.simps fst_conv snd_conv) simp
next
  case (Some t)
  show ?thesis
    unfolding has_field_def body_error_handler Some
    apply (simp only: option.case)
    apply (cases "NODE_ENV ev = Some ''development''")
     apply (simp_all only: if_True if_False append_Nil2 append.simps map_of.simps fst_conv
                           snd_conv)
     apply simp_all
    done
qed

lemma success_field_routes:
  "has_field ''success'' (fst (handle ev req s)) = (\<not> plain_route req)"
  by (cases req)
     (auto simp: has_field_def handler_defs get_system_info_def get_info_def get_data_def
             post_echo_def put_catch_def stats_payload_def error_handler_def preflight_def
             route_not_found_def server_error_def not_found_def first_row_def Let_def
           split: prod.splits sum.splits list.splits option.splits)

lemma success_field_value:
  "\<not> plain_route req \<longrightarrow>
   (field ''success'' (fst (handle ev req s)) = Some (JBool True)
      \<and> status (fst (handle ev req s)) \<in> {200, 201})
   \<or> (field ''success'' (fst (handle ev req s)) = Some (JBool False)
      \<and> (status (fst (handle ev req s)) \<in> {400, 404, 409, 500}
         \<or> (\<exists>err. req = Body_rejected err)))"
  by (cases req)
     (auto simp: field_def handler_defs get_system_info_def put_catch_def stats_payload_def
             error_handler_def route_not_found_def server_error_def not_found_def Let_def
           split: prod.splits sum.splits list.splits option.splits)

text \<open>The start of the process.\<close>

lemma loop_attempts:
  "length (filter (\<lambda>e. e = Connect) (snd (checkDatabaseConnection_loop connect retries delay i)))
     \<le> retries - i"
proof (induction connect retries delay i rule: checkDatabaseConnection_loop.induct)
  case (1 connect retries delay i)
  show ?case
  proof (cases "i < retries \<and> \<not> connect i")
    case True
    with 1 have "length (filter (\<lambda>e. e = Connect)
                    (snd (checkDatabaseConnection_loop connect retries delay (i + 1))))
                 \<le> retries - (i + 1)"
      by simp
    with True show ?thesis
      by (subst checkDatabaseConnection_loop.simps) (auto simp: split_def Let_def)
  next
    case False
    then show ?thesis
      by (subst checkDatabaseConnection_loop.simps) auto
  qed
qed

lemma loop_delays:
  "Sleep d \<in> set (snd (checkDatabaseConnection_loop connect retries delay i)) \<Longrightarrow> d = delay"
proof (induction connect retries delay i rule: checkDatabaseConnection_loop.induct)
  case (1 connect retries delay i)
  show ?case
  proof (cases "i < retries \<and> \<not> connect i")
    case True
    with 1 show ?thesis
      by (subst (asm) (2) checkDatabaseConnection_loop.simps)
         (auto simp: split_def Let_def split: if_splits)
  next
    case False
    with 1(2) show ?thesis
      by (subst (asm) checkDatabaseConnection_loop.simps) (auto split: if_splits)
  qed
qed

lemma all_attempts_fail:
  assumes "\<forall>i<5. \<not> connect i"
  shows "checkDatabaseConnection connect
         = (False, [Connect, Log_waiting 1 5, Sleep 2000, Connect, Log_waiting 2 5, Sleep 2000,
                    Connect, Log_waiting 3 5, Sleep 2000, Connect, Log_waiting 4 5, Sleep 2000,
                    Connect, Log_waiting 5 5, Error_no_connection])"
proof -
  from assms have c: "\<not> connect 0" "\<not> connect 1" "\<not> connect 2" "\<not> connect 3" "\<not> connect 4"
    by simp_all
  have l5: "checkDatabaseConnection_loop connect 5 2000 5 = (False, [Error_no_connection])"
    by (subst checkDatabaseConnection_loop.simps) simp
  have l4: "checkDatabaseConnection_loop connect 5 2000 4
            = (False, [Connect, Log_waiting 5 5, Error_no_connection])"
    using c l5 by (subst checkDatabaseConnection_loop.simps) simp
  have l3: "checkDatabaseConnection_loop connect 5 2000 3
            = (False, [Connect, Log_waiting 4 5, Sleep 2000,
                       Connect, Log_waiting 5 5, Error_no_connection])"
    using c l4 by (subst checkDatabaseConnection_loop.simps) simp
  have l2: "checkDatabaseConnection_loop connect 5 2000 2
            = (False, [Connect, Log_waiting 3 5, Sleep 2000, Connect, Log_waiting 4 5, Sleep 2000,
                       Connect, Log_waiting 5 5, Error_no_connection])"
    using c l3 by (subst checkDatabaseConnection_loop.simps) simp
  have l1: "checkDatabaseConnection_loop connect 5 2000 1
            = (False, [Connect, Log_waiting 2 5, Sleep 2000, Connect, Log_waiting 3 5, Sleep 2000,
                       Connect, Log_waiting 4 5, Sleep 2000,
                       Connect, Log_waiting 5 5, Error_no_connection])"
    using c l2
    by (subst checkDatabaseConnection_loop.simps) (simp add: numeral_2_eq_2 [symmetric])
  show ?thesis
    unfolding checkDatabaseConnection_def
    using c l1 by (subst checkDatabaseConnection_loop.simps) simp
qed

lemma startServer_listens: "fst (startServer connect Listens) = Listening"
  by (simp add: startServer_def split_def Let_def)

lemma health_v2_down:
  "outage s = Some err \<Longrightarrow>
   fst (get_health_v2 ev s)
     = reply 500
         [(''service'', JStr ''backend-api''), (''status'', JStr ''unhealthy''),
          (''timestamp'', JDate (date_now ev)),
          (''database'', JObj [(''status'', JStr ''disconnected''),
                               (''error'', JStr (message err))])]"
  by (simp add: get_health_v2_def pool_query_down Let_def)

lemma health_down:
  "outage s = Some err \<Longrightarrow>
   status (fst (get_health ev s)) = 500
   \<and> field ''status'' (fst (get_health ev s)) = Some (JStr ''unhealthy'')"
  by (simp add: get_health_def pool_query_down field_def)

text \<open>Coercion to \<open>VARCHAR\<close>, and the insertion of a user.\<close>
lemma not_space_at_blank: "not_space_at c \<Longrightarrow> c \<noteq> CHR '' ''"
  by (auto simp: not_space_at_def regex_space_def is_space_def)

lemma regex_no_blank:
  assumes "emailRegex_test e"
  shows "CHR '' '' \<notin> set e"
proof
  assume b: "CHR '' '' \<in> set e"
  from assms obtain d where d: "dropWhile not_space_at e = CHR ''@'' # d" "list_all not_space_at d"
    by (auto simp: emailRegex_test_def split: list.splits)
  have "set e = set (takeWhile not_space_at e) \<union> set (dropWhile not_space_at e)"
    by (metis set_append takeWhile_dropWhile_id)
  with b d have "CHR '' '' \<in> set (takeWhile not_space_at e) \<or> CHR '' '' \<in> set d"
    by auto
  then show False
  proof
    assume "CHR '' '' \<in> set (takeWhile not_space_at e)"
    then have "not_space_at (CHR '' '')" by (rule set_takeWhileD [THEN conjunct2])
    then show False using not_space_at_blank by blast
  next
    assume "CHR '' '' \<in> set d"
    with d(2) have "not_space_at (CHR '' '')" by (simp add: list_all_iff)
    then show False using not_space_at_blank by blast
  qed
qed

lemma varchar_short: "length v \<le> n \<Longrightarrow> varchar n v = Inr v"
  by (simp add: varchar_def)

lemma varchar_no_blank:
  assumes "CHR '' '' \<notin> set v" and "varchar n v = Inr v1"
  shows "v1 = v \<and> length v \<le> n"
proof (cases "length v \<le> n")
  case True
  with assms(2) show ?thesis by (simp add: varchar_def)
next
  case False
  then have "drop n v \<noteq> []" by simp
  then obtain c where c: "c \<in> set (drop n v)" by (cases "drop n v") auto
  from assms(2) False have "list_all (\<lambda>c. c = CHR '' '') (drop n v)"
    by (simp add: varchar_def split: if_splits)
  with c have "c = CHR '' ''" by (simp add: list_all_iff)
  with c have "CHR '' '' \<in> set v" by (auto dest: in_set_dropD)
  with assms(1) show ?thesis by simp
qed

lemma insert_usuario_Inr:
  assumes "insert_usuario n e s = (Inr r, v)"
  shows "usuarios_id_seq s < 2147483647 \<and> CHR 0x00 \<notin> set n \<and> CHR 0x00 \<notin> set e
       \<and> (\<exists>n1 e1. varchar 100 n = Inr n1 \<and> varchar 100 e = Inr e1
            \<and> (\<forall>u \<in> set (usuarios s). usuario_id u \<noteq> usuarios_id_seq s + 1)
            \<and> (\<forall>u \<in> set (usuarios s). usuario_email u \<noteq> e1)
            \<and> r = returning [usuario_row \<lparr>usuario_id = usuarios_id_seq s + 1, usuario_nombre = n1,
                                           usuario_email = e1, usuario_creado_en = db_time s\<rparr>]
            \<and> v = s\<lparr>usuarios_id_seq := usuarios_id_seq s + 1,
                     usuarios := usuarios s @ [\<lparr>usuario_id = usuarios_id_seq s + 1,
                        usuario_nombre = n1, usuario_email = e1, usuario_creado_en = db_time s\<rparr>]\<rparr>)"
  using assms
  by (auto simp: insert_usuario_def text_in_def Let_def split: if_splits sum.splits)

lemma insert_usuario_ok:
  assumes "usuarios_id_seq s < 2147483647" and "length n \<le> 100" and "length e \<le> 100"
    and "CHR 0x00 \<notin> set n" and "CHR 0x00 \<notin> set e"
    and "\<forall>u \<in> set (usuarios s). usuario_id u \<noteq> usuarios_id_seq s + 1"
    and "\<forall>u \<in> set (usuarios s). usuario_email u \<noteq> e"
  shows "insert_usuario n e s
         = (Inr (returning [usuario_row \<lparr>usuario_id = usuarios_id_seq s + 1, usuario_nombre = n,
                                         usuario_email = e, usuario_creado_en = db_time s\<rparr>]),
            s\<lparr>usuarios_id_seq := usuarios_id_seq s + 1,
              usuarios := usuarios s @ [\<lparr>usuario_id = usuarios_id_seq s + 1,
                 usuario_nombre = n, usuario_email = e, usuario_creado_en = db_time s\<rparr>]\<rparr>)"
  using assms by (simp add: insert_usuario_def text_in_def Let_def varchar_short)

lemma insert_usuario_duplicate:
  assumes "usuarios_id_seq s < 2147483647" and "length n \<le> 100" and "length e \<le> 100"
    and "CHR 0x00 \<notin> set n" and "CHR 0x00 \<notin> set e"
    and "\<exists>u \<in> set (usuarios s). usuario_email u = e"
  shows "\<exists>err. insert_usuario n e s = (Inl err, s\<lparr>usuarios_id_seq := usuarios_id_seq s + 1\<rparr>)
             \<and> code err = Some ''23505''"
  using assms
  by (auto simp: insert_usuario_def text_in_def Let_def varchar_short unique_violation_def)

text \<open>The decimal text of an integer within 32 bits is read as that integer.\<close>

lemma digit_char_facts:
  "is_digit (digit_char n) \<and> digit_val (digit_char n) = n mod 10 \<and> \<not> is_space (digit_char n)
   \<and> digit_char n \<noteq> CHR 0x00 \<and> digit_char n \<noteq> CHR ''-'' \<and> digit_char n \<noteq> CHR ''+''"
proof -
  have "\<forall>k \<in> set [0..<10].
          is_digit (''0123456789'' ! k) \<and> digit_val (''0123456789'' ! k) = k
        \<and> \<not> is_space (''0123456789'' ! k) \<and> ''0123456789'' ! k \<noteq> CHR 0x00
        \<and> ''0123456789'' ! k \<noteq> CHR ''-'' \<and> ''0123456789'' ! k \<noteq> CHR ''+''"
    by code_simp
  moreover have "n mod 10 \<in> set [0..<10]" by simp
  ultimately show ?thesis unfolding digit_char_def by blast
qed

lemma digits_val_snoc: "digits_val (xs @ [c]) = 10 * digits_val xs + digit_val c"
  by (simp add: digits_val_def)

lemma dec_facts:
  "dec n \<noteq> [] \<and> list_all is_digit (dec n) \<and> digits_val (dec n) = n
   \<and> (\<forall>c \<in> set (dec n). \<not> is_space c \<and> c \<noteq> CHR 0x00)
   \<and> hd (dec n) \<noteq> CHR ''-'' \<and> hd (dec n) \<noteq> CHR ''+''"
proof (induction n rule: dec.induct)
  case (1 n)
  show ?case
  proof (cases "n < 10")
    case True
    then have d: "dec n = [digit_char n]" by (simp add: dec.simps)
    from True have "n mod 10 = n" by simp
    with digit_char_facts [of n] show ?thesis
      by (simp add: d digits_val_def)
  next
    case False
    then have d: "dec n = dec (n div 10) @ [digit_char (n mod 10)]"
      by (subst dec.simps) simp
    note ih = 1 [OF False]
    from ih digit_char_facts [of "n mod 10"] show ?thesis
      by (auto simp: d digits_val_snoc)
  qed
qed

lemma dropWhile_none: "\<forall>c \<in> set ys. \<not> P c \<Longrightarrow> dropWhile P ys = ys"
  by (cases ys) auto

lemma trim_no_space: "\<forall>c \<in> set xs. \<not> is_space c \<Longrightarrow> trim xs = xs"
  by (simp add: trim_def dropWhile_none)

lemma int4in_dec_int:
  assumes "- 2147483648 \<le> k" and "k \<le> 2147483647"
  shows "int4in (dec_int k) = Inr k"
proof (cases "k < 0")
  case False
  note f = dec_facts [of "nat k"]
  from f have t: "trim (dec (nat k)) = dec (nat k)" by (simp add: trim_no_space)
  from f have sd: "signed_digits (dec (nat k)) = (False, dec (nat k))"
    by (cases "dec (nat k)") (auto simp: signed_digits_def)
  from f have nul: "CHR 0x00 \<notin> set (dec (nat k))" by blast
  from False assms f show ?thesis
    by (simp add: int4in_def dec_int_def t sd nul)
next
  case True
  note f = dec_facts [of "nat (- k)"]
  have sp: "\<not> is_space (CHR ''-'')" by (simp add: is_space_def)
  from f sp have t: "trim (CHR ''-'' # dec (nat (- k))) = CHR ''-'' # dec (nat (- k))"
    by (intro trim_no_space) auto
  have sd: "signed_digits (CHR ''-'' # dec (nat (- k))) = (True, dec (nat (- k)))"
    by (simp add: signed_digits_def)
  from f have nul: "CHR 0x00 \<notin> set (CHR ''-'' # dec (nat (- k)))" by auto
  from True assms f show ?thesis
    by (simp add: int4in_def dec_int_def t sd nul del: set_simps list.set)
qed

lemma int4in_out_of_range:
  "int4in ''2147483648''
   = Inl \<lparr>code = Some ''22003'',
          message = ''value '' @ dq ''2147483648'' @ '' is out of range for type integer''\<rparr>"
  by (simp add: int4in_def trim_def is_space_def signed_digits_def is_digit_def digits_val_def
                digit_val_def)

text \<open>The users routes on a reachable store.\<close>
lemma post_users_created:
  assumes "status (fst (post_users \<lparr>nombre = Some n, email = Some e\<rparr> s)) = 201"
  shows "outage s = None \<and> n \<noteq> [] \<and> emailRegex_test e
       \<and> (\<exists>r v. insert_usuario n e (s\<lparr>query_log := query_log s @ [INSERT_usuarios n e]\<rparr>)
                    = (Inr r, v)
                \<and> post_users \<lparr>nombre = Some n, email = Some e\<rparr> s
                    = (reply 201 ([(''success'', JBool True),
                                   (''message'', JStr ''Usuario creado exitosamente'')]
                                  @ first_row ''user'' r), v))"
proof (cases "outage s")
  case (Some m)
  with assms show ?thesis
    by (auto simp: post_users_def pool_query_down server_error_def split: if_splits)
next
  case None
  with assms show ?thesis
    by (auto simp: post_users_def pool_query_up server_error_def truthy_def str_def
             split: if_splits prod.splits sum.splits)
qed

lemma post_users_ok:
  assumes "outage s = None" and "n \<noteq> []" and "emailRegex_test e"
    and "insert_usuario n e (s\<lparr>query_log := query_log s @ [INSERT_usuarios n e]\<rparr>) = (Inr r, v)"
  shows "post_users \<lparr>nombre = Some n, email = Some e\<rparr> s
         = (reply 201 ([(''success'', JBool True),
                        (''message'', JStr ''Usuario creado exitosamente'')]
                       @ first_row ''user'' r), v)"
  using assms emailRegex_test_nonempty [OF assms(3)]
  by (simp add: post_users_def pool_query_up truthy_def str_def)

lemma post_users_conflict:
  assumes "outage s = None" and "n \<noteq> []" and "emailRegex_test e"
    and "insert_usuario n e (s\<lparr>query_log := query_log s @ [INSERT_usuarios n e]\<rparr>) = (Inl err, v)"
    and "code err = Some ''23505''"
  shows "status (fst (post_users \<lparr>nombre = Some n, email = Some e\<rparr> s)) = 409
       \<and> usuarios (snd (post_users \<lparr>nombre = Some n, email = Some e\<rparr> s)) = usuarios v"
  using assms emailRegex_test_nonempty [OF assms(3)]
  by (simp add: post_users_def pool_query_up truthy_def str_def)

lemma post_users_conflict_state:
  assumes "outage s = None" and "n \<noteq> []" and "emailRegex_test e"
    and "insert_usuario n e (s\<lparr>query_log := query_log s @ [INSERT_usuarios n e]\<rparr>) = (Inl err, v)"
    and "code err = Some ''23505''"
  shows "post_users \<lparr>nombre = Some n, email = Some e\<rparr> s
         = (reply 409 [(''success'', JBool False),
                       (''error'', JStr (''El email '' @ sq e @ '' ya est'' @ [CHR 0xE1]
                                         @ '' registrado''))],
            v\<lparr>thrown := thrown v @ [(INSERT_usuarios n e, err)]\<rparr>)"
  using assms emailRegex_test_nonempty [OF assms(3)]
  by (simp add: post_users_def pool_query_up truthy_def str_def)

lemma get_users_id_found:
  assumes "outage s = None" and "int4in i = Inr k"
    and "filter (\<lambda>u. usuario_id u = k) (usuarios s) = u # us"
  shows "fst (get_users_id i s) = reply 200 [(''success'', JBool True), (''user'', usuario_row u)]"
  using assms by (simp add: get_users_id_def select_by_id_up first_row_def)

lemma get_users_id_missing:
  assumes "outage s = None" and "int4in i = Inr k" and "k \<notin> usuario_id ` set (usuarios s)"
  shows "fst (get_users_id i s) = not_found i"
proof -
  from assms(3) have "filter (\<lambda>u. usuario_id u = k) (usuarios s) = []"
    by (auto simp: filter_empty_conv)
  with assms show ?thesis by (simp add: get_users_id_def select_by_id_up)
qed

lemma put_users_id_missing:
  assumes "outage s = None" and "int4in i = Inr k" and "k \<notin> usuario_id ` set (usuarios s)"
    and "truthy (nombre b) \<or> truthy (email b)"
  shows "fst (put_users_id i b s) = not_found i"
proof -
  from assms(3) have "filter (\<lambda>u. usuario_id u = k) (usuarios s) = []"
    by (auto simp: filter_empty_conv)
  with assms show ?thesis by (auto simp: put_users_id_def select_by_id_up)
qed

lemma delete_up:
  assumes "outage s = None" and "int4in i = Inr k"
  shows "pool_query (DELETE_usuarios_WHERE_id i) s
         = (Inr (returning (map usuario_row (filter (\<lambda>u. usuario_id u = k) (usuarios s)))),
            s\<lparr>query_log := query_log s @ [DELETE_usuarios_WHERE_id i],
              usuarios := filter (\<lambda>u. usuario_id u \<noteq> k) (usuarios s)\<rparr>)"
  using assms by (simp add: pool_query_up)

lemma delete_users_id_missing:
  assumes "outage s = None" and "int4in i = Inr k" and "k \<notin> usuario_id ` set (usuarios s)"
  shows "fst (delete_users_id i s) = not_found i"
proof -
  from assms(3) have "filter (\<lambda>u. usuario_id u = k) (usuarios s) = []"
    by (auto simp: filter_empty_conv)
  with assms show ?thesis by (simp add: delete_users_id_def delete_up)
qed

lemma delete_users_id_found:
  assumes "outage s = None" and "int4in i = Inr k"
    and "filter (\<lambda>u. usuario_id u = k) (usuarios s) = u # us"
  shows "delete_users_id i s
         = (reply 200 [(''success'', JBool True),
                       (''message'', JStr ''Usuario eliminado exitosamente''),
                       (''deleted_user'', usuario_row u)],
            s\<lparr>query_log := query_log s @ [DELETE_usuarios_WHERE_id i],
              usuarios := filter (\<lambda>u. usuario_id u \<noteq> k) (usuarios s)\<rparr>)"
  using assms by (simp add: delete_users_id_def delete_up first_row_def)

lemma distinct_filter_single:
  assumes "distinct (map f xs)" and "x \<in> set xs"
  shows "filter (\<lambda>y. f y = f x) xs = [x]"
  using assms
proof (induction xs)
  case Nil
  then show ?case by simp
next
  case (Cons a xs)
  show ?case
  proof (cases "a = x")
    case True
    with Cons.prems have "\<forall>y \<in> set xs. f y \<noteq> f x" by (auto simp: image_iff)
    then have "filter (\<lambda>y. f y = f x) xs = []" by (auto simp: filter_empty_conv)
    with True show ?thesis by simp
  next
    case False
    with Cons.prems have x: "x \<in> set xs" and "f a \<noteq> f x" by auto
    with Cons show ?thesis by simp
  qed
qed

text \<open>The language of the email pattern, spelled out: a local part, \<open>@\<close>, a domain, a dot
  and a top-level part, each non-empty and free of white space and \<open>@\<close>.\<close>
lemma not_space_at_chars: "\<not> not_space_at (CHR ''@'')" "not_space_at (CHR ''.'')"
  by (simp_all add: not_space_at_def regex_space_def is_space_def)

lemma emailRegex_test_language:
  "emailRegex_test s \<longleftrightarrow>
     (\<exists>a b c. s = a @ ''@'' @ b @ ''.'' @ c \<and> a \<noteq> [] \<and> b \<noteq> [] \<and> c \<noteq> []
              \<and> list_all not_space_at a \<and> list_all not_space_at b \<and> list_all not_space_at c)"
proof
  assume t: "emailRegex_test s"
  let ?a = "takeWhile not_space_at s"
  from t obtain d where d: "dropWhile not_space_at s = CHR ''@'' # d" "list_all not_space_at d"
    "CHR ''.'' \<in> set (butlast (tl d))" and a: "?a \<noteq> []"
    by (auto simp: emailRegex_test_def split: list.splits)
  from d(3) obtain x r where xr: "d = x # r" "r \<noteq> []"
    by (cases d; cases "tl d") auto
  from d(3) xr obtain ys zs where yz: "butlast r = ys @ CHR ''.'' # zs"
    by (auto dest: split_list)
  have r: "r = ys @ CHR ''.'' # zs @ [last r]"
    using xr(2) yz append_butlast_last_id [of r] by simp
  have s: "s = ?a @ ''@'' @ (x # ys) @ ''.'' @ (zs @ [last r])"
    using takeWhile_dropWhile_id [of not_space_at s] d(1) xr(1) r by simp
  have pa: "list_all not_space_at ?a"
    by (auto simp: list_all_iff dest: set_takeWhileD)
  have pd: "list_all not_space_at (x # ys @ CHR ''.'' # zs @ [last r])"
    using d(2) xr(1) r by simp
  from pd have pb: "list_all not_space_at (x # ys)" and pc: "list_all not_space_at (zs @ [last r])"
    by simp_all
  from s a pa pb pc show "\<exists>a b c. s = a @ ''@'' @ b @ ''.'' @ c \<and> a \<noteq> [] \<and> b \<noteq> [] \<and> c \<noteq> []
              \<and> list_all not_space_at a \<and> list_all not_space_at b \<and> list_all not_space_at c"
    by blast
next
  assume "\<exists>a b c. s = a @ ''@'' @ b @ ''.'' @ c \<and> a \<noteq> [] \<and> b \<noteq> [] \<and> c \<noteq> []
              \<and> list_all not_space_at a \<and> list_all not_space_at b \<and> list_all not_space_at c"
  then obtain a b c where s: "s = a @ ''@'' @ b @ ''.'' @ c" and ne: "a \<noteq> []" "b \<noteq> []" "c \<noteq> []"
    and p: "list_all not_space_at a" "list_all not_space_at b" "list_all not_space_at c"
    by blast
  from p(1) have tw: "takeWhile not_space_at s = a"
    unfolding s using not_space_at_chars(1) by (simp add: list_all_iff takeWhile_tail)
  from p(1) have dw: "dropWhile not_space_at s = CHR ''@'' # b @ CHR ''.'' # c"
    unfolding s using not_space_at_chars(1) by (simp add: list_all_iff dropWhile_append3)
  from ne(2) obtain x ys where b: "b = x # ys" by (cases b) auto
  have "butlast (tl (b @ CHR ''.'' # c)) = ys @ CHR ''.'' # butlast c"
    using b ne(3) by (simp add: butlast_append)
  then have dot: "CHR ''.'' \<in> set (butlast (tl (b @ CHR ''.'' # c)))"
    by simp
  have "list_all not_space_at (b @ CHR ''.'' # c)"
    using p(2,3) not_space_at_chars(2) by simp
  with tw dw ne(1) dot show "emailRegex_test s"
    by (simp add: emailRegex_test_def)
qed

text \<open>The constraints of the schema hold after \<open>init.sql\<close> and are kept by every request.\<close>
lemma init_sql_ok: "store_ok (init_sql t v)"
  by (simp add: init_sql_def store_ok_def)

lemma store_ok_ghost [simp]:
  "store_ok (s\<lparr>query_log := l\<rparr>) = store_ok s"
  "store_ok (s\<lparr>thrown := e\<rparr>) = store_ok s"
  by (simp_all add: store_ok_def)

lemma insert_usuario_store_ok:
  assumes "store_ok s"
  shows "store_ok (snd (insert_usuario n e s))"
proof -
  from assms have le: "\<forall>u \<in> set (usuarios s). usuario_id u \<le> usuarios_id_seq s"
    by (simp add: store_ok_def list_all_iff)
  then have fresh: "usuarios_id_seq s + 1 \<notin> usuario_id ` set (usuarios s)"
    by force
  from le have le1: "\<forall>u \<in> set (usuarios s). usuario_id u \<le> usuarios_id_seq s + 1"
    by force
  from assms fresh le1 show ?thesis
    by (auto simp: insert_usuario_def store_ok_def list_all_iff Let_def image_iff
             split: sum.splits)
qed

lemma exec_store_ok:
  assumes "store_ok s" and "\<forall>sets i. q \<noteq> UPDATE_usuarios sets i"
  shows "store_ok (snd (exec q s))"
proof (cases q)
  case (INSERT_usuarios n e)
  with assms(1) show ?thesis by (simp add: insert_usuario_store_ok)
next
  case (DELETE_usuarios_WHERE_id i)
  with assms(1) show ?thesis
    by (auto simp: store_ok_def list_all_iff distinct_map_filter split: sum.splits)
next
  case (UPDATE_usuarios sets i)
  with assms(2) show ?thesis by simp
qed (use assms(1) in \<open>auto split: sum.splits\<close>)

lemma pool_query_store_ok:
  assumes "store_ok s" and "\<forall>sets i. q \<noteq> UPDATE_usuarios sets i"
  shows "store_ok (snd (pool_query q s))"
proof (cases "outage s")
  case None
  have "store_ok (snd (exec q (s\<lparr>query_log := query_log s @ [q]\<rparr>)))"
    using assms by (intro exec_store_ok) simp_all
  then show ?thesis
    by (cases "exec q (s\<lparr>query_log := query_log s @ [q]\<rparr>)")
       (auto simp: pool_query_up [OF None] split: sum.splits)
next
  case (Some m)
  with assms(1) show ?thesis by (simp add: pool_query_down)
qed

lemma pool_query_store_okD:
  "pool_query q s = (r, s1) \<Longrightarrow> store_ok s \<Longrightarrow> \<forall>sets i. q \<noteq> UPDATE_usuarios sets i
   \<Longrightarrow> store_ok s1"
  using pool_query_store_ok [of s q] by simp

lemma put_select_store_okD:
  "pool_query (SELECT_usuarios_WHERE_id i) s = (r, s1) \<Longrightarrow> store_ok s \<Longrightarrow> store_ok s1"
  by (erule pool_query_store_okD) simp_all

lemma put_update_store_okD:
  assumes "pool_query (UPDATE_usuarios (put_updates b @ [(''actualizado_en'', x)]) i) s = (r, s1)"
    and "store_ok s"
  shows "store_ok s1"
proof (cases "outage s")
  case None
  from assms(1) have "s1 = s\<lparr>query_log := query_log s
                          @ [UPDATE_usuarios (put_updates b @ [(''actualizado_en'', x)]) i],
          thrown := thrown s
                    @ [(UPDATE_usuarios (put_updates b @ [(''actualizado_en'', x)]) i,
                        undefined_column ''actualizado_en'')]\<rparr>"
    by (simp add: put_update_up [OF None])
  with assms(2) show ?thesis by simp
next
  case (Some m)
  with assms show ?thesis by (auto simp: pool_query_down)
qed

lemma put_users_id_store_ok: "store_ok s \<Longrightarrow> store_ok (snd (put_users_id i b s))"
  by (auto simp: put_users_id_def split: prod.splits sum.splits
           dest: put_select_store_okD put_update_store_okD)

lemma handle_store_ok:
  assumes "store_ok s"
  shows "store_ok (snd (handle ev req s))"
proof (cases req)
  case (PUT_users_id i b)
  with assms show ?thesis by (simp add: put_users_id_store_ok)
next
  case GET_stats
  with assms show ?thesis
    by (auto simp: get_stats_def Let_def split: prod.splits sum.splits list.splits
             dest!: pool_query_store_okD)
qed (use assms in \<open>auto simp: get_health_def get_db_test_def get_users_def get_users_id_def
        post_users_def delete_users_id_def get_products_def
      split: prod.splits sum.splits dest!: pool_query_store_okD\<close>)

section \<open>The claims\<close>

text \<open>
  Claim C10. \<open>PUT /users/:id\<close> tests the presence of a field by its truthiness. A body whose
  \<open>nombre\<close> and \<open>email\<close> are both the empty text is answered as a body with neither field:
  status 400, and the store is not reached. An empty \<open>nombre\<close> sent with a non-empty \<open>email\<close>
  (a valid one in particular) is dropped: the request is answered as the request without
  \<open>nombre\<close> and not with 400; the handler sends the \<open>SELECT\<close> and, unless that fails or finds
  no user, the \<open>UPDATE\<close> whose \<open>SET\<close> clause holds the email and the timestamp and no name.
  For an existing user on a reachable store that \<open>UPDATE\<close> is sent, whereas with a non-empty
  name the \<open>SET\<close> clause of the \<open>UPDATE\<close> sent starts with the name.
\<close>

theorem put_presence_by_truthiness:
  assumes "e \<noteq> []"
  shows "put_users_id i \<lparr>nombre = Some [], email = Some []\<rparr> s
           = put_users_id i \<lparr>nombre = None, email = None\<rparr> s
       \<and> status (fst (put_users_id i \<lparr>nombre = Some [], email = Some []\<rparr> s)) = 400
       \<and> snd (put_users_id i \<lparr>nombre = Some [], email = Some []\<rparr> s) = s
       \<and> put_users_id i \<lparr>nombre = Some [], email = Some e\<rparr> s
           = put_users_id i \<lparr>nombre = None, email = Some e\<rparr> s
       \<and> status (fst (put_users_id i \<lparr>nombre = Some [], email = Some e\<rparr> s)) \<noteq> 400
       \<and> issued s (snd (put_users_id i \<lparr>nombre = Some [], email = Some e\<rparr> s))
           \<in> {[SELECT_usuarios_WHERE_id i],
               [SELECT_usuarios_WHERE_id i,
                UPDATE_usuarios [(''email'', Param e), (''actualizado_en'', CURRENT_TIMESTAMP)] i]}
       \<and> (outage s = None \<and> int4in i = Inr k \<and> k \<in> usuario_id ` set (usuarios s) \<longrightarrow>
            issued s (snd (put_users_id i \<lparr>nombre = Some [], email = Some e\<rparr> s))
              = [SELECT_usuarios_WHERE_id i,
                 UPDATE_usuarios [(''email'', Param e), (''actualizado_en'', CURRENT_TIMESTAMP)] i]
          \<and> (n \<noteq> [] \<longrightarrow>
               issued s (snd (put_users_id i \<lparr>nombre = Some n, email = Some e\<rparr> s))
                 = [SELECT_usuarios_WHERE_id i,
                    UPDATE_usuarios [(''nombre'', Param n), (''email'', Param e),
                                     (''actualizado_en'', CURRENT_TIMESTAMP)] i]))"
proof -
  note ne = assms
  have a: "put_users_id i \<lparr>nombre = Some [], email = Some []\<rparr> s
           = put_users_id i \<lparr>nombre = None, email = None\<rparr> s"
    by (simp add: put_users_id_def truthy_def str_def)
  have b: "status (fst (put_users_id i \<lparr>nombre = Some [], email = Some []\<rparr> s)) = 400"
    by (simp add: put_users_id_def truthy_def str_def)
  have c: "snd (put_users_id i \<lparr>nombre = Some [], email = Some []\<rparr> s) = s"
    by (simp add: put_users_id_def truthy_def str_def)
  have d: "put_users_id i \<lparr>nombre = Some [], email = Some e\<rparr> s
           = put_users_id i \<lparr>nombre = None, email = Some e\<rparr> s"
    by (auto simp: put_users_id_def put_updates_def put_catch_def truthy_def str_def
             split: prod.splits sum.splits)
  have g: "status (fst (put_users_id i \<lparr>nombre = Some [], email = Some e\<rparr> s)) \<noteq> 400"
    using ne
    by (auto simp: put_users_id_def put_catch_def not_found_def server_error_def truthy_def
                   str_def
             split: prod.splits sum.splits)
  have h: "issued s (snd (put_users_id i \<lparr>nombre = Some [], email = Some e\<rparr> s))
           \<in> {[SELECT_usuarios_WHERE_id i],
               [SELECT_usuarios_WHERE_id i,
                UPDATE_usuarios [(''email'', Param e), (''actualizado_en'', CURRENT_TIMESTAMP)] i]}"
    using ne
    by (auto simp: put_users_id_def put_updates_def issued_def truthy_def str_def
             split: prod.splits sum.splits dest!: pool_queryD)
  have k: "outage s = None \<and> int4in i = Inr k \<and> k \<in> usuario_id ` set (usuarios s) \<longrightarrow>
            issued s (snd (put_users_id i \<lparr>nombre = Some [], email = Some e\<rparr> s))
              = [SELECT_usuarios_WHERE_id i,
                 UPDATE_usuarios [(''email'', Param e), (''actualizado_en'', CURRENT_TIMESTAMP)] i]
          \<and> (n \<noteq> [] \<longrightarrow>
               issued s (snd (put_users_id i \<lparr>nombre = Some n, email = Some e\<rparr> s))
                 = [SELECT_usuarios_WHERE_id i,
                    UPDATE_usuarios [(''nombre'', Param n), (''email'', Param e),
                                     (''actualizado_en'', CURRENT_TIMESTAMP)] i])"
  proof (intro impI conjI)
    assume h: "outage s = None \<and> int4in i = Inr k \<and> k \<in> usuario_id ` set (usuarios s)"
    then have up: "outage s = None" and i: "int4in i = Inr k"
      and ex: "k \<in> usuario_id ` set (usuarios s)"
      by simp_all
    have t: "truthy (nombre \<lparr>nombre = Some [], email = Some e\<rparr>)
             \<or> truthy (email \<lparr>nombre = Some [], email = Some e\<rparr>)"
      using ne by (simp add: truthy_def str_def)
    show "issued s (snd (put_users_id i \<lparr>nombre = Some [], email = Some e\<rparr> s))
              = [SELECT_usuarios_WHERE_id i,
                 UPDATE_usuarios [(''email'', Param e), (''actualizado_en'', CURRENT_TIMESTAMP)] i]"
      using ne
      by (simp add: put_users_id_existing [OF up i ex t] issued_def put_updates_def truthy_def
                    str_def)
    assume n: "n \<noteq> []"
    have t2: "truthy (nombre \<lparr>nombre = Some n, email = Some e\<rparr>)
             \<or> truthy (email \<lparr>nombre = Some n, email = Some e\<rparr>)"
      using ne by (simp add: truthy_def str_def)
    show "issued s (snd (put_users_id i \<lparr>nombre = Some n, email = Some e\<rparr> s))
                 = [SELECT_usuarios_WHERE_id i,
                    UPDATE_usuarios [(''nombre'', Param n), (''email'', Param e),
                                     (''actualizado_en'', CURRENT_TIMESTAMP)] i]"
      using ne n
      by (simp add: put_users_id_existing [OF up i ex t2] issued_def put_updates_def truthy_def
                    str_def)
  qed
  show ?thesis
    apply (intro conjI)
          apply (rule a)
         apply (rule b)
        apply (rule c)
       apply (rule d)
      apply (rule g)
     apply (rule h)
    apply (rule k)
    done
qed

theorem put_presence_by_truthiness_witness:
  "''ana@example.com'' \<noteq> [] \<and> outage (init_sql 0 []) = None \<and> int4in ''1'' = Inr 1
   \<and> 1 \<in> usuario_id ` set (usuarios (init_sql 0 []))
   \<and> status (fst (put_users_id ''1'' \<lparr>nombre = Some [], email = Some []\<rparr> (init_sql 0 []))) = 400
   \<and> put_users_id ''1'' \<lparr>nombre = Some [], email = Some ''ana@example.com''\<rparr> (init_sql 0 [])
       = put_users_id ''1'' \<lparr>nombre = None, email = Some ''ana@example.com''\<rparr> (init_sql 0 [])
   \<and> status (fst (put_users_id ''1'' \<lparr>nombre = Some [], email = Some ''ana@example.com''\<rparr>
                    (init_sql 0 []))) \<noteq> 400
   \<and> issued (init_sql 0 [])
        (snd (put_users_id ''1'' \<lparr>nombre = Some [], email = Some ''ana@example.com''\<rparr>
                (init_sql 0 [])))
       = [SELECT_usuarios_WHERE_id ''1'',
          UPDATE_usuarios [(''email'', Param ''ana@example.com''),
                           (''actualizado_en'', CURRENT_TIMESTAMP)] ''1'']
   \<and> issued (init_sql 0 [])
        (snd (put_users_id ''1'' \<lparr>nombre = Some ''Ana'', email = Some ''ana@example.com''\<rparr>
                (init_sql 0 [])))
       = [SELECT_usuarios_WHERE_id ''1'',
          UPDATE_usuarios [(''nombre'', Param ''Ana''), (''email'', Param ''ana@example.com''),
                           (''actualizado_en'', CURRENT_TIMESTAMP)] ''1'']"
proof -
  have h: "''ana@example.com'' \<noteq> []" by simp
  have h1: "outage (init_sql 0 []) = None" by (simp add: init_sql_def)
  have h2: "int4in ''1'' = Inr 1" by code_simp
  have h3: "1 \<in> usuario_id ` set (usuarios (init_sql 0 []))" by (simp add: init_sql_def)
  have h4: "''Ana'' \<noteq> []" by simp
  from put_presence_by_truthiness [OF h, of "''1''" "init_sql 0 []" 1 "''Ana''"] h h1 h2 h3 h4
  show ?thesis by blast
qed

text \<open>
  Claim C1 says that \<open>PUT /users/:id\<close> with only a valid \<open>email\<close> succeeds for every
  existing user, changes the email and refreshes an update timestamp. The handler builds
  \<open>SET email = $1, actualizado_en = CURRENT_TIMESTAMP\<close>, and the table of \<open>init.sql\<close> has no
  column \<open>actualizado_en\<close>. So on a reachable store, for every existing user and every valid
  email, the request is answered 500 with the store's message about the missing column, and
  the table (the email included) is unchanged.
\<close>

theorem put_only_email_fails:
  assumes "outage s = None" and "int4in i = Inr n" and "n \<in> usuario_id ` set (usuarios s)"
    and "emailRegex_test e"
  shows "status (fst (put_users_id i \<lparr>nombre = None, email = Some e\<rparr> s)) = 500
       \<and> field ''error'' (fst (put_users_id i \<lparr>nombre = None, email = Some e\<rparr> s))
           = Some (JStr (message (undefined_column ''actualizado_en'')))
       \<and> usuarios (snd (put_users_id i \<lparr>nombre = None, email = Some e\<rparr> s)) = usuarios s"
proof -
  from assms(4) have "e \<noteq> []" by (rule emailRegex_test_nonempty)
  then have "truthy (nombre \<lparr>nombre = None, email = Some e\<rparr>)
             \<or> truthy (email \<lparr>nombre = None, email = Some e\<rparr>)"
    by (simp add: truthy_def str_def)
  from put_users_id_existing [OF assms(1) assms(2) assms(3) this]
  show ?thesis by (simp add: server_error_def field_def)
qed

theorem put_only_email_fails_witness:
  "outage (init_sql 0 []) = None \<and> int4in ''1'' = Inr 1
   \<and> 1 \<in> usuario_id ` set (usuarios (init_sql 0 []))
   \<and> emailRegex_test ''nuevo@example.com''
   \<and> status (fst (put_users_id ''1'' \<lparr>nombre = None, email = Some ''nuevo@example.com''\<rparr>
                    (init_sql 0 []))) = 500
   \<and> map usuario_email
        (usuarios (snd (put_users_id ''1'' \<lparr>nombre = None, email = Some ''nuevo@example.com''\<rparr>
                         (init_sql 0 []))))
      = [''juan@example.com'', ''maria@example.com'']"
proof -
  have h1: "outage (init_sql 0 []) = None" by (simp add: init_sql_def)
  have h2: "int4in ''1'' = Inr 1" by code_simp
  have h3: "1 \<in> usuario_id ` set (usuarios (init_sql 0 []))" by (simp add: init_sql_def)
  have h4: "emailRegex_test ''nuevo@example.com''" by code_simp
  have h5: "map usuario_email (usuarios (init_sql 0 []))
            = [''juan@example.com'', ''maria@example.com'']"
    by (simp add: init_sql_def)
  from put_only_email_fails [OF h1 h2 h3 h4] h1 h2 h3 h4 h5 show ?thesis by simp
qed

text \<open>
  Claim C5 says that a create or update request whose \<open>email\<close> is present and not valid is
  answered 400 without a store write. \<open>POST /users\<close> does so: whenever the email does not
  match the pattern the answer is 400 and the store is not reached. \<open>PUT /users/:id\<close> never
  tests the pattern: with the email \<open>no-es-un-email\<close> it sends the \<open>UPDATE\<close> carrying that
  email for the existing user 1 (answered 500 by way of the missing column), and answers 404
  for the missing user 999.
\<close>

theorem invalid_email_rejected_on_create_only:
  "(\<not> emailRegex_test (str (email b)) \<longrightarrow>
      status (fst (post_users b s)) = 400 \<and> snd (post_users b s) = s)
   \<and> \<not> emailRegex_test ''no-es-un-email''
   \<and> status (fst (put_users_id ''1'' \<lparr>nombre = None, email = Some ''no-es-un-email''\<rparr>
                    (init_sql 0 []))) = 500
   \<and> query_log (snd (put_users_id ''1'' \<lparr>nombre = None, email = Some ''no-es-un-email''\<rparr>
                       (init_sql 0 [])))
      = [SELECT_usuarios_WHERE_id ''1'',
         UPDATE_usuarios [(''email'', Param ''no-es-un-email''),
                          (''actualizado_en'', CURRENT_TIMESTAMP)] ''1'']
   \<and> status (fst (put_users_id ''999'' \<lparr>nombre = None, email = Some ''no-es-un-email''\<rparr>
                    (init_sql 0 []))) = 404"
proof -
  have a: "\<not> emailRegex_test (str (email b)) \<longrightarrow>
      status (fst (post_users b s)) = 400 \<and> snd (post_users b s) = s"
    by (simp add: post_users_def)
  have b: "\<not> emailRegex_test ''no-es-un-email''" by code_simp
  have c: "status (fst (put_users_id ''1'' \<lparr>nombre = None, email = Some ''no-es-un-email''\<rparr>
                    (init_sql 0 []))) = 500" by code_simp
  have d: "query_log (snd (put_users_id ''1'' \<lparr>nombre = None, email = Some ''no-es-un-email''\<rparr>
                       (init_sql 0 [])))
      = [SELECT_usuarios_WHERE_id ''1'',
         UPDATE_usuarios [(''email'', Param ''no-es-un-email''),
                          (''actualizado_en'', CURRENT_TIMESTAMP)] ''1'']" by code_simp
  have e: "status (fst (put_users_id ''999'' \<lparr>nombre = None, email = Some ''no-es-un-email''\<rparr>
                    (init_sql 0 []))) = 404" by code_simp
  from a b c d e show ?thesis by blast
qed

theorem invalid_email_rejected_on_create_only_witness:
  "\<not> emailRegex_test (str (email \<lparr>nombre = Some ''Ana'', email = Some ''ana@example''\<rparr>))
   \<and> status (fst (post_users \<lparr>nombre = Some ''Ana'', email = Some ''ana@example''\<rparr>
                    (init_sql 0 []))) = 400
   \<and> snd (post_users \<lparr>nombre = Some ''Ana'', email = Some ''ana@example''\<rparr> (init_sql 0 []))
      = init_sql 0 []"
proof -
  have h: "\<not> emailRegex_test
               (str (email \<lparr>nombre = Some ''Ana'', email = Some ''ana@example''\<rparr>))"
    by code_simp
  from invalid_email_rejected_on_create_only
         [of "\<lparr>nombre = Some ''Ana'', email = Some ''ana@example''\<rparr>" "init_sql 0 []"] h
  show ?thesis by blast
qed




text \<open>
  Claim C4 says that every handler that reaches the store performs exactly one store
  operation per request. It fails for \<open>PUT /users/:id\<close>, which sends a \<open>SELECT\<close> and then an
  \<open>UPDATE\<close>, and for \<open>GET /stats\<close>, which sends three queries.
\<close>

theorem two_and_three_queries:
  "query_log (snd (handle production
                     (PUT_users_id ''1'' \<lparr>nombre = Some ''Ana'', email = None\<rparr>) (init_sql 0 [])))
     = [SELECT_usuarios_WHERE_id ''1'',
        UPDATE_usuarios [(''nombre'', Param ''Ana''), (''actualizado_en'', CURRENT_TIMESTAMP)]
          ''1'']
   \<and> query_log (snd (handle production GET_stats (init_sql 0 [])))
     = [SELECT_count_usuarios, SELECT_count_productos, SELECT_version]"
proof -
  have a: "query_log (snd (handle production
                     (PUT_users_id ''1'' \<lparr>nombre = Some ''Ana'', email = None\<rparr>) (init_sql 0 [])))
     = [SELECT_usuarios_WHERE_id ''1'',
        UPDATE_usuarios [(''nombre'', Param ''Ana''), (''actualizado_en'', CURRENT_TIMESTAMP)]
          ''1'']"
    by code_simp
  have b: "query_log (snd (handle production GET_stats (init_sql 0 [])))
     = [SELECT_count_usuarios, SELECT_count_productos, SELECT_version]"
    by (simp add: get_stats_def Let_def pool_query_def init_sql_def split: prod.splits)
  from a b show ?thesis by blast
qed

text \<open>
  Claim C4 as amended. The statements a request sends are appended to the log, are pairwise
  different (none is sent twice), and are: for \<open>GET /stats\<close> its three queries; for
  \<open>PUT /users/:id\<close> none (the body is refused), the \<open>SELECT\<close> alone (it failed or found no
  user) or the \<open>SELECT\<close> followed by one \<open>UPDATE\<close>; for every other request at most one.
  Outside \<open>GET /stats\<close> at most one operation fails, and it is the last one sent: a failed
  operation is never followed by another.
\<close>

theorem queries_per_request:
  "query_log (snd (handle ev req s)) = query_log s @ issued s (snd (handle ev req s))
   \<and> distinct (issued s (snd (handle ev req s)))
   \<and> (case req of
        GET_stats \<Rightarrow>
          issued s (snd (handle ev req s))
            = [SELECT_count_usuarios, SELECT_count_productos, SELECT_version]
      | PUT_users_id i b \<Rightarrow>
          issued s (snd (handle ev req s))
            \<in> {[], [SELECT_usuarios_WHERE_id i],
                [SELECT_usuarios_WHERE_id i,
                 UPDATE_usuarios (put_updates b @ [(''actualizado_en'', CURRENT_TIMESTAMP)]) i]}
      | _ \<Rightarrow> length (issued s (snd (handle ev req s))) \<le> 1)
   \<and> (req \<noteq> GET_stats \<longrightarrow>
        raised s (snd (handle ev req s)) = []
        \<or> (issued s (snd (handle ev req s)) \<noteq> []
           \<and> (\<exists>e. raised s (snd (handle ev req s))
                     = [(last (issued s (snd (handle ev req s))), e)])))"
  using handle_query_log [of ev req s] issued_distinct [of s ev req]
        issued_shape [where req = req and s = s and ev = ev]
        raised_last [where req = req and s = s and ev = ev]
  by blast

theorem queries_per_request_witness:
  "GET_users_id ''abc'' \<noteq> GET_stats
   \<and> issued (init_sql 0 []) (snd (handle production (GET_users_id ''abc'') (init_sql 0 [])))
       = [SELECT_usuarios_WHERE_id ''abc'']
   \<and> map fst (raised (init_sql 0 [])
                 (snd (handle production (GET_users_id ''abc'') (init_sql 0 []))))
       = [SELECT_usuarios_WHERE_id ''abc'']"
proof -
  have h: "GET_users_id ''abc'' \<noteq> GET_stats" by simp
  have i: "issued (init_sql 0 []) (snd (handle production (GET_users_id ''abc'') (init_sql 0 [])))
       = [SELECT_usuarios_WHERE_id ''abc'']"
    by code_simp
  have r: "raised (init_sql 0 []) (snd (handle production (GET_users_id ''abc'') (init_sql 0 [])))
       \<noteq> []"
    by code_simp
  from queries_per_request [of production "GET_users_id ''abc''" "init_sql 0 []"] h i r
  show ?thesis by auto
qed




text \<open>
  Claim C9. When the store is unreachable while the process starts (every attempt fails),
  \<open>checkDatabaseConnection\<close> makes exactly five attempts with a pause of 2000 ms between
  consecutive attempts, logs the failure and returns \<open>false\<close>; \<open>startServer\<close> then warns and
  listens. Whatever the store does, the attempts are at most five, every pause is 2000 ms,
  and the process listens when \<open>app.listen\<close> does (it neither throws nor fails afterwards
  on a port that is taken). The variant that connects once listens too. While the store
  stays unreachable the health check answers 500 with status \<open>unhealthy\<close>, in both variants.
\<close>

theorem startup_survives_unreachable_store:
  assumes "\<forall>i<5. \<not> connect i" and "outage s = Some err"
  shows "checkDatabaseConnection connect
           = (False, [Connect, Log_waiting 1 5, Sleep 2000, Connect, Log_waiting 2 5, Sleep 2000,
                      Connect, Log_waiting 3 5, Sleep 2000, Connect, Log_waiting 4 5, Sleep 2000,
                      Connect, Log_waiting 5 5, Error_no_connection])
       \<and> startServer connect Listens
           = (Listening,
              snd (checkDatabaseConnection connect)
              @ [Warn_without_database, Listen, Log_started False])
       \<and> length (filter (\<lambda>e. e = Connect) (snd (checkDatabaseConnection any))) \<le> 5
       \<and> (\<forall>d. Sleep d \<in> set (snd (checkDatabaseConnection any)) \<longrightarrow> d = 2000)
       \<and> fst (startServer any Listens) = Listening
       \<and> fst (start_v3 False Listens) = Listening
       \<and> status (fst (get_health_v2 ev s)) = 500
       \<and> field ''status'' (fst (get_health_v2 ev s)) = Some (JStr ''unhealthy'')
       \<and> status (fst (get_health ev s)) = 500
       \<and> field ''status'' (fst (get_health ev s)) = Some (JStr ''unhealthy'')"
proof -
  note a = all_attempts_fail [OF assms(1)]
  have b: "startServer connect Listens
           = (Listening,
              snd (checkDatabaseConnection connect)
              @ [Warn_without_database, Listen, Log_started False])"
    by (simp add: startServer_def a)
  have c: "length (filter (\<lambda>e. e = Connect) (snd (checkDatabaseConnection any))) \<le> 5"
    using loop_attempts [of any 5 2000 0] by (simp add: checkDatabaseConnection_def)
  have d: "\<forall>d. Sleep d \<in> set (snd (checkDatabaseConnection any)) \<longrightarrow> d = 2000"
    using loop_delays [of _ any 5 2000 0] by (auto simp: checkDatabaseConnection_def)
  have e: "fst (startServer any Listens) = Listening"
    by (rule startServer_listens)
  have f: "fst (start_v3 False Listens) = Listening"
    by (simp add: start_v3_def)
  have g: "status (fst (get_health_v2 ev s)) = 500
           \<and> field ''status'' (fst (get_health_v2 ev s)) = Some (JStr ''unhealthy'')"
    by (simp add: health_v2_down [OF assms(2)] field_def)
  note h = health_down [OF assms(2), of ev]
  show ?thesis
    apply (intro conjI)
             apply (rule a)
            apply (rule b)
           apply (rule c)
          apply (rule d)
         apply (rule e)
        apply (rule f)
       apply (rule g [THEN conjunct1])
      apply (rule g [THEN conjunct2])
     apply (rule h [THEN conjunct1])
    apply (rule h [THEN conjunct2])
    done
qed

theorem startup_survives_unreachable_store_witness:
  "outage ((init_sql 0 [])\<lparr>outage := Some \<lparr>code = Some ''ECONNREFUSED'', message = ''connect ECONNREFUSED''\<rparr>\<rparr>)
     = Some \<lparr>code = Some ''ECONNREFUSED'', message = ''connect ECONNREFUSED''\<rparr>
   \<and> length (filter (\<lambda>e. e = Connect) (snd (checkDatabaseConnection (\<lambda>k. False)))) = 5
   \<and> length (filter (\<lambda>e. e = Sleep 2000) (snd (checkDatabaseConnection (\<lambda>k. False)))) = 4
   \<and> fst (startServer (\<lambda>k. False) Listens) = Listening
   \<and> status (fst (get_health production
                     ((init_sql 0 [])\<lparr>outage := Some \<lparr>code = Some ''ECONNREFUSED'', message = ''connect ECONNREFUSED''\<rparr>\<rparr>))) = 500"
proof -
  have h1: "\<forall>i<5. \<not> (\<lambda>k. False) i" by simp
  have h2: "outage ((init_sql 0 [])\<lparr>outage := Some \<lparr>code = Some ''ECONNREFUSED'', message = ''connect ECONNREFUSED''\<rparr>\<rparr>)
            = Some \<lparr>code = Some ''ECONNREFUSED'', message = ''connect ECONNREFUSED''\<rparr>"
    by simp
  note t = startup_survives_unreachable_store [OF h1 h2, of "\<lambda>k. False" production]
  have a: "length (filter (\<lambda>e. e = Connect) (snd (checkDatabaseConnection (\<lambda>k. False)))) = 5"
    by (simp add: t [THEN conjunct1])
  have b: "length (filter (\<lambda>e. e = Sleep 2000) (snd (checkDatabaseConnection (\<lambda>k. False)))) = 4"
    by (simp add: t [THEN conjunct1])
  have c: "fst (startServer (\<lambda>k. False) Listens) = Listening"
    by (simp add: t [THEN conjunct2, THEN conjunct1])
  have d: "status (fst (get_health production
                     ((init_sql 0 [])\<lparr>outage := Some \<lparr>code = Some ''ECONNREFUSED'', message = ''connect ECONNREFUSED''\<rparr>\<rparr>))) = 500"
    using t by blast
  from h2 a b c d show ?thesis by blast
qed

text \<open>
  Claim C2 says that after a successful \<open>POST /users\<close> with email \<open>e\<close>, a second
  \<open>POST /users\<close> with the same email is answered 409 and leaves the state unchanged. It
  fails after \<open>POST /users\<close> of Ana with \<open>ana@example.com\<close> on the store of \<open>init.sql\<close>: a
  second request with that email and no name is answered 400, one with a name of 101
  characters is answered 500, and the one that is answered 409 moves the sequence of the
  identifiers from 3 to 4.
\<close>

theorem second_post_not_always_conflict:
  "status (fst (post_users \<lparr>nombre = Some ''Ana'', email = Some ''ana@example.com''\<rparr>
                  (init_sql 0 []))) = 201
   \<and> status (fst (post_users \<lparr>nombre = None, email = Some ''ana@example.com''\<rparr>
                  (snd (post_users \<lparr>nombre = Some ''Ana'', email = Some ''ana@example.com''\<rparr>
                          (init_sql 0 []))))) = 400
   \<and> status (fst (post_users \<lparr>nombre = Some (replicate 101 (CHR ''a'')),
                               email = Some ''ana@example.com''\<rparr>
                  (snd (post_users \<lparr>nombre = Some ''Ana'', email = Some ''ana@example.com''\<rparr>
                          (init_sql 0 []))))) = 500
   \<and> status (fst (post_users \<lparr>nombre = Some ''Otra Ana'', email = Some ''ana@example.com''\<rparr>
                  (snd (post_users \<lparr>nombre = Some ''Ana'', email = Some ''ana@example.com''\<rparr>
                          (init_sql 0 []))))) = 409
   \<and> usuarios_id_seq
         (snd (post_users \<lparr>nombre = Some ''Ana'', email = Some ''ana@example.com''\<rparr>
                 (init_sql 0 []))) = 3
   \<and> usuarios_id_seq
         (snd (post_users \<lparr>nombre = Some ''Otra Ana'', email = Some ''ana@example.com''\<rparr>
                  (snd (post_users \<lparr>nombre = Some ''Ana'', email = Some ''ana@example.com''\<rparr>
                          (init_sql 0 []))))) = 4"
proof -
  let ?s1 = "snd (post_users \<lparr>nombre = Some ''Ana'', email = Some ''ana@example.com''\<rparr>
                    (init_sql 0 []))"
  have a: "status (fst (post_users \<lparr>nombre = Some ''Ana'', email = Some ''ana@example.com''\<rparr>
                  (init_sql 0 []))) = 201"
    by code_simp
  have b: "status (fst (post_users \<lparr>nombre = None, email = Some ''ana@example.com''\<rparr> ?s1))
           = 400"
    by code_simp
  have c: "status (fst (post_users \<lparr>nombre = Some (replicate 101 (CHR ''a'')),
                               email = Some ''ana@example.com''\<rparr> ?s1)) = 500"
    by code_simp
  have d: "status (fst (post_users \<lparr>nombre = Some ''Otra Ana'',
                                     email = Some ''ana@example.com''\<rparr> ?s1)) = 409"
    by code_simp
  have e: "usuarios_id_seq ?s1 = 3"
    by code_simp
  have f: "usuarios_id_seq
             (snd (post_users \<lparr>nombre = Some ''Otra Ana'', email = Some ''ana@example.com''\<rparr>
                     ?s1)) = 4"
    by code_simp
  from a b c d e f show ?thesis by blast
qed

text \<open>
  Claim C2 as amended. After a \<open>POST /users\<close> with email \<open>e\<close> that succeeded (201), a second
  \<open>POST /users\<close> with the same email and a name that the first check and the column accept
  (a text that is not empty, of at most 100 characters, without the character U+0000), the
  store still reachable and the sequence of the identifiers not exhausted, is answered 409
  with the text that the email is registered already. The table of the users is as the
  first request left it and holds exactly one user with email \<open>e\<close>. The refused attempt uses
  up one value of the sequence: that, and the record of the statement and of its error, is
  all it changes in the store.
\<close>

theorem duplicate_email_conflict:
  assumes "status (fst (post_users \<lparr>nombre = Some n1, email = Some e\<rparr> s)) = 201"
    and "usuarios_id_seq s + 1 < 2147483647"
    and "n2 \<noteq> []" and "length n2 \<le> 100" and "CHR 0x00 \<notin> set n2"
  shows "fst (post_users \<lparr>nombre = Some n2, email = Some e\<rparr>
                (snd (post_users \<lparr>nombre = Some n1, email = Some e\<rparr> s)))
           = reply 409 [(''success'', JBool False),
                        (''error'', JStr (''El email '' @ sq e @ '' ya est'' @ [CHR 0xE1]
                                          @ '' registrado''))]
       \<and> usuarios (snd (post_users \<lparr>nombre = Some n2, email = Some e\<rparr>
                            (snd (post_users \<lparr>nombre = Some n1, email = Some e\<rparr> s))))
           = usuarios (snd (post_users \<lparr>nombre = Some n1, email = Some e\<rparr> s))
       \<and> length (filter (\<lambda>u. usuario_email u = e)
                    (usuarios (snd (post_users \<lparr>nombre = Some n1, email = Some e\<rparr> s)))) = 1
       \<and> (\<exists>err. code err = Some ''23505''
            \<and> snd (post_users \<lparr>nombre = Some n2, email = Some e\<rparr>
                      (snd (post_users \<lparr>nombre = Some n1, email = Some e\<rparr> s)))
              = (snd (post_users \<lparr>nombre = Some n1, email = Some e\<rparr> s))
                  \<lparr>usuarios_id_seq :=
                     usuarios_id_seq (snd (post_users \<lparr>nombre = Some n1, email = Some e\<rparr> s)) + 1,
                   query_log :=
                     query_log (snd (post_users \<lparr>nombre = Some n1, email = Some e\<rparr> s))
                     @ [INSERT_usuarios n2 e],
                   thrown :=
                     thrown (snd (post_users \<lparr>nombre = Some n1, email = Some e\<rparr> s))
                     @ [(INSERT_usuarios n2 e, err)]\<rparr>)"
proof -
  let ?s0 = "s\<lparr>query_log := query_log s @ [INSERT_usuarios n1 e]\<rparr>"
  from post_users_created [OF assms(1)] obtain r v where
    up: "outage s = None" and re: "emailRegex_test e"
    and ins: "insert_usuario n1 e ?s0 = (Inr r, v)"
    and post: "snd (post_users \<lparr>nombre = Some n1, email = Some e\<rparr> s) = v"
    by auto
  from insert_usuario_Inr [OF ins] obtain m1 e1 where
    nul: "CHR 0x00 \<notin> set e"
    and ve: "varchar 100 e = Inr e1"
    and fresh: "\<forall>u \<in> set (usuarios s). usuario_email u \<noteq> e1"
    and v: "v = ?s0\<lparr>usuarios_id_seq := usuarios_id_seq ?s0 + 1,
                     usuarios := usuarios ?s0 @ [\<lparr>usuario_id = usuarios_id_seq ?s0 + 1,
                        usuario_nombre = m1, usuario_email = e1,
                        usuario_creado_en = db_time ?s0\<rparr>]\<rparr>"
    by auto
  from varchar_no_blank [OF regex_no_blank [OF re] ve] have e1: "e1 = e" and le: "length e \<le> 100"
    by simp_all
  let ?v1 = "v\<lparr>query_log := query_log v @ [INSERT_usuarios n2 e]\<rparr>"
  have upv: "outage v = None" using up v by simp
  have seqv: "usuarios_id_seq ?v1 < 2147483647" using assms(2) v by simp
  have dup: "\<exists>u \<in> set (usuarios ?v1). usuario_email u = e" using v e1 by simp
  from insert_usuario_duplicate [OF seqv assms(4) le assms(5) nul dup] obtain err where
    fail: "insert_usuario n2 e ?v1 = (Inl err, ?v1\<lparr>usuarios_id_seq := usuarios_id_seq ?v1 + 1\<rparr>)"
    and code: "code err = Some ''23505''"
    by blast
  note st = post_users_conflict_state [OF upv assms(3) re fail code]
  have a: "fst (post_users \<lparr>nombre = Some n2, email = Some e\<rparr> v)
           = reply 409 [(''success'', JBool False),
                        (''error'', JStr (''El email '' @ sq e @ '' ya est'' @ [CHR 0xE1]
                                          @ '' registrado''))]"
    by (simp add: st)
  have b: "usuarios (snd (post_users \<lparr>nombre = Some n2, email = Some e\<rparr> v)) = usuarios v"
    by (simp add: st)
  from fresh e1 have "filter (\<lambda>u. usuario_email u = e) (usuarios s) = []"
    by (auto simp: filter_empty_conv)
  then have c: "length (filter (\<lambda>u. usuario_email u = e) (usuarios v)) = 1"
    using v e1 by simp
  have d: "snd (post_users \<lparr>nombre = Some n2, email = Some e\<rparr> v)
           = v\<lparr>usuarios_id_seq := usuarios_id_seq v + 1,
               query_log := query_log v @ [INSERT_usuarios n2 e],
               thrown := thrown v @ [(INSERT_usuarios n2 e, err)]\<rparr>"
    by (simp add: st)
  from code d have d': "\<exists>err. code err = Some ''23505''
            \<and> snd (post_users \<lparr>nombre = Some n2, email = Some e\<rparr> v)
              = v\<lparr>usuarios_id_seq := usuarios_id_seq v + 1,
                  query_log := query_log v @ [INSERT_usuarios n2 e],
                  thrown := thrown v @ [(INSERT_usuarios n2 e, err)]\<rparr>"
    by blast
  show ?thesis
    unfolding post
    apply (intro conjI)
       apply (rule a)
      apply (rule b)
     apply (rule c)
    apply (rule d')
    done
qed

theorem duplicate_email_conflict_witness:
  "status (fst (post_users \<lparr>nombre = Some ''Ana'', email = Some ''ana@example.com''\<rparr>
                  (init_sql 0 []))) = 201
   \<and> status (fst (post_users \<lparr>nombre = Some ''Otra Ana'', email = Some ''ana@example.com''\<rparr>
                  (snd (post_users \<lparr>nombre = Some ''Ana'', email = Some ''ana@example.com''\<rparr>
                          (init_sql 0 []))))) = 409
   \<and> map usuario_email
         (usuarios (snd (post_users \<lparr>nombre = Some ''Otra Ana'', email = Some ''ana@example.com''\<rparr>
                  (snd (post_users \<lparr>nombre = Some ''Ana'', email = Some ''ana@example.com''\<rparr>
                          (init_sql 0 []))))))
      = [''juan@example.com'', ''maria@example.com'', ''ana@example.com'']"
proof -
  have h1: "status (fst (post_users \<lparr>nombre = Some ''Ana'', email = Some ''ana@example.com''\<rparr>
                  (init_sql 0 []))) = 201"
    by code_simp
  have h2: "usuarios_id_seq (init_sql 0 []) + 1 < 2147483647"
    by (simp add: init_sql_def)
  have h3: "''Otra Ana'' \<noteq> []" by simp
  have h4: "length ''Otra Ana'' \<le> 100" by simp
  have h5: "CHR 0x00 \<notin> set ''Otra Ana''" by simp
  have t: "map usuario_email
             (usuarios (snd (post_users \<lparr>nombre = Some ''Ana'', email = Some ''ana@example.com''\<rparr>
                          (init_sql 0 []))))
           = [''juan@example.com'', ''maria@example.com'', ''ana@example.com'']"
    by code_simp
  note th = duplicate_email_conflict [OF h1 h2 h3 h4 h5]
  have s409: "status (fst (post_users \<lparr>nombre = Some ''Otra Ana'',
                                        email = Some ''ana@example.com''\<rparr>
                  (snd (post_users \<lparr>nombre = Some ''Ana'', email = Some ''ana@example.com''\<rparr>
                          (init_sql 0 []))))) = 409"
    by (simp add: th [THEN conjunct1])
  from h1 s409 th [THEN conjunct2, THEN conjunct1] t show ?thesis by simp
qed

text \<open>
  Claim C8 says that every valid (name, email) pair is created with status 201. It fails for
  a valid pair whose name is longer than the column (101 characters: the store refuses the
  value, status 500), for a valid pair whose name holds the character U+0000 (the store
  refuses the text, status 500) and for a valid pair whose email is registered already
  (status 409).
\<close>

theorem valid_pair_not_created:
  "replicate 101 (CHR ''a'') \<noteq> [] \<and> emailRegex_test ''ana@example.com''
   \<and> status (fst (post_users \<lparr>nombre = Some (replicate 101 (CHR ''a'')),
                                 email = Some ''ana@example.com''\<rparr> (init_sql 0 []))) = 500
   \<and> [CHR ''a'', CHR 0x00, CHR ''b''] \<noteq> []
   \<and> status (fst (post_users \<lparr>nombre = Some [CHR ''a'', CHR 0x00, CHR ''b''],
                                 email = Some ''ana@example.com''\<rparr> (init_sql 0 []))) = 500
   \<and> emailRegex_test ''juan@example.com''
   \<and> status (fst (post_users \<lparr>nombre = Some ''Juan'', email = Some ''juan@example.com''\<rparr>
                    (init_sql 0 []))) = 409"
proof -
  have a: "replicate 101 (CHR ''a'') \<noteq> []" by code_simp
  have b: "emailRegex_test ''ana@example.com''" by code_simp
  have c: "status (fst (post_users \<lparr>nombre = Some (replicate 101 (CHR ''a'')),
                                 email = Some ''ana@example.com''\<rparr> (init_sql 0 []))) = 500"
    by code_simp
  have d: "emailRegex_test ''juan@example.com''" by code_simp
  have e: "status (fst (post_users \<lparr>nombre = Some ''Juan'', email = Some ''juan@example.com''\<rparr>
                    (init_sql 0 []))) = 409"
    by code_simp
  have f: "[CHR ''a'', CHR 0x00, CHR ''b''] \<noteq> []" by simp
  have g: "status (fst (post_users \<lparr>nombre = Some [CHR ''a'', CHR 0x00, CHR ''b''],
                                 email = Some ''ana@example.com''\<rparr> (init_sql 0 []))) = 500"
    by code_simp
  from a b c d e f g show ?thesis by blast
qed

text \<open>
  Claim C8 as amended. On a reachable store whose sequence is not exhausted, for every
  non-empty name and every email matching the pattern, each a text of at most 100 characters
  without the character U+0000, the email not registered yet: \<open>POST /users\<close> answers 201
  with the user carrying that name and email, the next value of the sequence as its id (an
  id no user has) and the store's current time; and \<open>GET /users/:id\<close> with that id answers
  200 with the same user.
\<close>

theorem create_then_get:
  assumes "outage s = None" and "store_ok s" and "usuarios_id_seq s < 2147483647"
    and "n \<noteq> []" and "length n \<le> 100"
    and "emailRegex_test e" and "length e \<le> 100"
    and "e \<notin> usuario_email ` set (usuarios s)"
    and "int4in i = Inr (usuarios_id_seq s + 1)"
    and "CHR 0x00 \<notin> set n" and "CHR 0x00 \<notin> set e"
  shows "status (fst (post_users \<lparr>nombre = Some n, email = Some e\<rparr> s)) = 201
       \<and> field ''user'' (fst (post_users \<lparr>nombre = Some n, email = Some e\<rparr> s))
           = Some (JObj [(''id'', JNum (usuarios_id_seq s + 1)), (''nombre'', JStr n),
                         (''email'', JStr e), (''creado_en'', JDate (db_time s))])
       \<and> usuarios_id_seq s + 1 \<notin> usuario_id ` set (usuarios s)
       \<and> status (fst (get_users_id i (snd (post_users \<lparr>nombre = Some n, email = Some e\<rparr> s))))
           = 200
       \<and> field ''user''
            (fst (get_users_id i (snd (post_users \<lparr>nombre = Some n, email = Some e\<rparr> s))))
           = field ''user'' (fst (post_users \<lparr>nombre = Some n, email = Some e\<rparr> s))"
proof -
  let ?s0 = "s\<lparr>query_log := query_log s @ [INSERT_usuarios n e]\<rparr>"
  let ?u = "\<lparr>usuario_id = usuarios_id_seq s + 1, usuario_nombre = n, usuario_email = e,
            usuario_creado_en = db_time s\<rparr>"
  let ?v = "?s0\<lparr>usuarios_id_seq := usuarios_id_seq s + 1, usuarios := usuarios s @ [?u]\<rparr>"
  from assms(2) have ids: "\<forall>u \<in> set (usuarios s). usuario_id u \<noteq> usuarios_id_seq s + 1"
    by (auto simp: store_ok_def list_all_iff)
  from assms(8) have emails: "\<forall>u \<in> set (usuarios s). usuario_email u \<noteq> e"
    by auto
  have ins: "insert_usuario n e ?s0 = (Inr (returning [usuario_row ?u]), ?v)"
    using insert_usuario_ok [of ?s0 n e] assms(3,5,7,10,11) ids emails by simp
  note post = post_users_ok [OF assms(1) assms(4) assms(6) ins]
  have a: "status (fst (post_users \<lparr>nombre = Some n, email = Some e\<rparr> s)) = 201"
    by (simp add: post)
  have b: "field ''user'' (fst (post_users \<lparr>nombre = Some n, email = Some e\<rparr> s))
           = Some (usuario_row ?u)"
    by (simp add: post field_def first_row_def)
  have c: "usuarios_id_seq s + 1 \<notin> usuario_id ` set (usuarios s)"
    using ids by auto
  have upv: "outage ?v = None" using assms(1) by simp
  from ids have "filter (\<lambda>u. usuario_id u = usuarios_id_seq s + 1) (usuarios s) = []"
    by (auto simp: filter_empty_conv)
  then have f: "filter (\<lambda>u. usuario_id u = usuarios_id_seq s + 1) (usuarios ?v) = ?u # []"
    by simp
  note get = get_users_id_found [OF upv assms(9) f]
  have d: "status (fst (get_users_id i ?v)) = 200"
    by (simp add: get)
  have g: "field ''user'' (fst (get_users_id i ?v)) = Some (usuario_row ?u)"
    by (simp add: get field_def)
  have sv: "snd (post_users \<lparr>nombre = Some n, email = Some e\<rparr> s) = ?v"
    by (simp add: post)
  from a b c d g show ?thesis
    by (simp add: sv usuario_row_def)
qed

theorem create_then_get_witness:
  "outage (init_sql 7 []) = None \<and> store_ok (init_sql 7 [])
   \<and> emailRegex_test ''ana@example.com'' \<and> int4in ''3'' = Inr 3
   \<and> status (fst (post_users \<lparr>nombre = Some ''Ana'', email = Some ''ana@example.com''\<rparr>
                    (init_sql 7 []))) = 201
   \<and> field ''user'' (fst (get_users_id ''3''
          (snd (post_users \<lparr>nombre = Some ''Ana'', email = Some ''ana@example.com''\<rparr>
                  (init_sql 7 [])))))
      = Some (JObj [(''id'', JNum 3), (''nombre'', JStr ''Ana''),
                    (''email'', JStr ''ana@example.com''), (''creado_en'', JDate 7)])"
proof -
  have h1: "outage (init_sql 7 []) = None" by (simp add: init_sql_def)
  have h2: "store_ok (init_sql 7 [])" by (simp add: init_sql_def store_ok_def)
  have h3: "usuarios_id_seq (init_sql 7 []) < 2147483647" by (simp add: init_sql_def)
  have h4: "''Ana'' \<noteq> []" by simp
  have h5: "length ''Ana'' \<le> 100" by simp
  have h6: "emailRegex_test ''ana@example.com''" by code_simp
  have h7: "length ''ana@example.com'' \<le> 100" by simp
  have h8: "''ana@example.com'' \<notin> usuario_email ` set (usuarios (init_sql 7 []))"
    by (simp add: init_sql_def)
  have h9: "int4in ''3'' = Inr (usuarios_id_seq (init_sql 7 []) + 1)"
    by code_simp
  have h10: "CHR 0x00 \<notin> set ''Ana''" by simp
  have h11: "CHR 0x00 \<notin> set ''ana@example.com''" by simp
  have q: "usuarios_id_seq (init_sql 7 []) = 2" "db_time (init_sql 7 []) = 7"
    by (simp_all add: init_sql_def)
  from create_then_get [OF h1 h2 h3 h4 h5 h6 h7 h8 h9 h10 h11] h1 h2 h6 h9 q
  show ?thesis by simp
qed

text \<open>
  Claim C7 says that an id not present in the store is always answered 404, never 500. It
  fails for the id \<open>abc\<close>, which is the id of no user: the store refuses it as an integer and
  \<open>GET\<close> and \<open>DELETE\<close> answer 500. It fails for the id \<open>2147483648\<close> too, the text of an
  integer that is beyond the 32 bits of the column: the store refuses it and \<open>GET\<close> answers
  500. And \<open>PUT /users/999\<close> with neither field is answered 400.
\<close>

theorem missing_id_not_always_404:
  "status (fst (get_users_id ''abc'' (init_sql 0 []))) = 500
   \<and> status (fst (delete_users_id ''abc'' (init_sql 0 []))) = 500
   \<and> status (fst (put_users_id ''999'' \<lparr>nombre = None, email = None\<rparr> (init_sql 0 []))) = 400
   \<and> status (fst (get_users_id ''2147483648'' (init_sql 0 []))) = 500"
proof -
  have a: "status (fst (get_users_id ''abc'' (init_sql 0 []))) = 500" by code_simp
  have b: "status (fst (delete_users_id ''abc'' (init_sql 0 []))) = 500" by code_simp
  have c: "status (fst (put_users_id ''999'' \<lparr>nombre = None, email = None\<rparr> (init_sql 0 [])))
           = 400"
    by code_simp
  have d: "status (fst (get_users_id ''2147483648'' (init_sql 0 []))) = 500"
    by (simp add: get_users_id_def pool_query_def int4in_out_of_range server_error_def
                  init_sql_def)
  from a b c d show ?thesis by blast
qed

text \<open>
  Claim C7 as amended. On a reachable store, for every id that the store reads as an integer
  of its column (\<open>int4in i = Inr k\<close>: an optional sign and decimal digits, white space around
  them allowed, no other character, the value \<open>k\<close> within the 32 bits of the column, from
  -2147483648 to 2147483647; the decimal text of every such \<open>k\<close> is read as \<open>k\<close>): when no user
  has the id \<open>k\<close>, \<open>GET\<close> and \<open>DELETE\<close> answer 404 with no user payload, and \<open>PUT\<close> answers 404
  when the body has a truthy field and 400 when it has none; when a user has it, \<open>DELETE\<close>
  answers 200 with that user's record and removes it, and the same \<open>DELETE\<close> again answers
  404.
\<close>

theorem lookup_miss_not_found:
  assumes "outage s = None" and "int4in i = Inr k"
  shows "(k \<notin> usuario_id ` set (usuarios s) \<longrightarrow>
            fst (get_users_id i s) = not_found i \<and> status (fst (get_users_id i s)) = 404
          \<and> fst (delete_users_id i s) = not_found i \<and> status (fst (delete_users_id i s)) = 404
          \<and> (truthy (nombre b) \<or> truthy (email b) \<longrightarrow> status (fst (put_users_id i b s)) = 404)
          \<and> (\<not> truthy (nombre b) \<and> \<not> truthy (email b) \<longrightarrow>
                status (fst (put_users_id i b s)) = 400))
       \<and> (store_ok s \<and> u \<in> set (usuarios s) \<and> usuario_id u = k \<longrightarrow>
            status (fst (delete_users_id i s)) = 200
          \<and> field ''deleted_user'' (fst (delete_users_id i s)) = Some (usuario_row u)
          \<and> k \<notin> usuario_id ` set (usuarios (snd (delete_users_id i s)))
          \<and> status (fst (delete_users_id i (snd (delete_users_id i s)))) = 404)
       \<and> - 2147483648 \<le> k \<and> k \<le> 2147483647 \<and> int4in (dec_int k) = Inr k"
proof (intro conjI impI)
  assume m: "k \<notin> usuario_id ` set (usuarios s)"
  show "fst (get_users_id i s) = not_found i"
    by (rule get_users_id_missing [OF assms m])
  then show "status (fst (get_users_id i s)) = 404"
    by (simp add: not_found_def)
  show "fst (delete_users_id i s) = not_found i"
    by (rule delete_users_id_missing [OF assms m])
  then show "status (fst (delete_users_id i s)) = 404"
    by (simp add: not_found_def)
next
  assume m: "k \<notin> usuario_id ` set (usuarios s)" and t: "truthy (nombre b) \<or> truthy (email b)"
  show "status (fst (put_users_id i b s)) = 404"
    by (simp add: put_users_id_missing [OF assms m t] not_found_def)
next
  assume "\<not> truthy (nombre b) \<and> \<not> truthy (email b)"
  then show "status (fst (put_users_id i b s)) = 400"
    by (simp add: put_users_id_def)
next
  assume h: "store_ok s \<and> u \<in> set (usuarios s) \<and> usuario_id u = k"
  then have "filter (\<lambda>y. usuario_id y = usuario_id u) (usuarios s) = [u]"
    by (intro distinct_filter_single) (simp_all add: store_ok_def)
  with h have f: "filter (\<lambda>y. usuario_id y = k) (usuarios s) = u # []"
    by simp
  note del = delete_users_id_found [OF assms f]
  show "status (fst (delete_users_id i s)) = 200"
    by (simp add: del)
  show "field ''deleted_user'' (fst (delete_users_id i s)) = Some (usuario_row u)"
    by (simp add: del field_def)
  let ?v = "snd (delete_users_id i s)"
  show gone: "k \<notin> usuario_id ` set (usuarios ?v)"
    by (auto simp: del)
  have upv: "outage ?v = None"
    using assms(1) by (simp add: del)
  show "status (fst (delete_users_id i ?v)) = 404"
    by (simp add: delete_users_id_missing [OF upv assms(2) gone] not_found_def)
next
  from assms(2) show lo: "- 2147483648 \<le> k" and hi: "k \<le> 2147483647"
    by (auto simp: int4in_def Let_def split: prod.splits if_splits)
  then show "int4in (dec_int k) = Inr k"
    by (rule int4in_dec_int)
qed

theorem lookup_miss_not_found_witness:
  "outage (init_sql 0 []) = None \<and> int4in ''999'' = Inr 999 \<and> int4in ''1'' = Inr 1
   \<and> 999 \<notin> usuario_id ` set (usuarios (init_sql 0 []))
   \<and> status (fst (get_users_id ''999'' (init_sql 0 []))) = 404
   \<and> status (fst (put_users_id ''999'' \<lparr>nombre = Some ''Ana'', email = None\<rparr>
                    (init_sql 0 []))) = 404
   \<and> store_ok (init_sql 0 [])
   \<and> status (fst (delete_users_id ''1'' (init_sql 0 []))) = 200
   \<and> status (fst (delete_users_id ''1'' (snd (delete_users_id ''1'' (init_sql 0 []))))) = 404"
proof -
  let ?juan = "\<lparr>usuario_id = 1, usuario_nombre = ''Juan P'' @ [CHR 0xE9] @ ''rez'',
               usuario_email = ''juan@example.com'', usuario_creado_en = 0\<rparr>"
  have h1: "outage (init_sql 0 []) = None" by (simp add: init_sql_def)
  have h2: "int4in ''999'' = Inr 999" by code_simp
  have h3: "int4in ''1'' = Inr 1" by code_simp
  have h4: "999 \<notin> usuario_id ` set (usuarios (init_sql 0 []))" by (simp add: init_sql_def)
  have h5: "truthy (nombre \<lparr>nombre = Some ''Ana'', email = None\<rparr>)
            \<or> truthy (email \<lparr>nombre = Some ''Ana'', email = None\<rparr>)"
    by (simp add: truthy_def str_def)
  have h6: "store_ok (init_sql 0 []) \<and> ?juan \<in> set (usuarios (init_sql 0 []))
            \<and> usuario_id ?juan = 1"
    by (simp add: init_sql_def store_ok_def)
  from lookup_miss_not_found [OF h1 h2, of "\<lparr>nombre = Some ''Ana'', email = None\<rparr>"] h4 h5
  have a: "status (fst (get_users_id ''999'' (init_sql 0 []))) = 404
         \<and> status (fst (put_users_id ''999'' \<lparr>nombre = Some ''Ana'', email = None\<rparr>
                          (init_sql 0 []))) = 404"
    by blast
  from lookup_miss_not_found [OF h1 h3, of _ ?juan] h6
  have b: "status (fst (delete_users_id ''1'' (init_sql 0 []))) = 200
         \<and> status (fst (delete_users_id ''1'' (snd (delete_users_id ''1'' (init_sql 0 []))))) = 404"
    by blast
  from h1 h2 h3 h4 h6 a b show ?thesis by blast
qed

end
